theory Spec2Isabelle
  imports Complex_Main
begin

section \<open>Numbers of the host language\<close>

text \<open>
  A JavaScript number is an IEEE binary64 value. The model keeps the three special values
  and represents a finite number by the rational it denotes (the two zeros are one value,
  as they are for \<open>===\<close>, \<open><\<close> and \<open>>\<close>). Comparison and negation are exact on
  this representation. Operations whose result is rounded to binary64 are not defined here:
  where the code uses them they are taken from the host.
\<close>

datatype jsnum = NaN | NegInf | Fin rat | PosInf

fun num_lt :: "jsnum \<Rightarrow> jsnum \<Rightarrow> bool" where
  "num_lt NaN _ = False"
| "num_lt _ NaN = False"
| "num_lt (Fin a) (Fin b) = (a < b)"
| "num_lt NegInf NegInf = False"
| "num_lt NegInf _ = True"
| "num_lt _ NegInf = False"
| "num_lt PosInf _ = False"
| "num_lt _ PosInf = True"

definition num_gt :: "jsnum \<Rightarrow> jsnum \<Rightarrow> bool" where
  "num_gt a b = num_lt b a"

fun num_neg :: "jsnum \<Rightarrow> jsnum" where
  "num_neg NaN = NaN"
| "num_neg NegInf = PosInf"
| "num_neg (Fin q) = Fin (- q)"
| "num_neg PosInf = NegInf"

section \<open>Values\<close>

text \<open>
  Values of the host language. An array or a plain object is an object with an identity
  (a reference): \<open>===\<close> on two objects compares the references, not the contents.
  The property list of an object is its own enumerable properties in the order in which
  \<open>for ... in\<close> visits them. An array is the list of its elements; a gap reads as
  \<open>undefined\<close> and is stored as such. Functions, symbols and big integers are not
  values of the model, and property lookup sees own properties only.
\<close>

type_synonym ref = nat

datatype jsval =
    Undefined
  | Null
  | Bool bool
  | Num jsnum
  | Str string
  | Arr ref "jsval list"
  | Obj ref "(string \<times> jsval) list"

fun typeof :: "jsval \<Rightarrow> string" where
  "typeof Undefined = ''undefined''"
| "typeof Null = ''object''"
| "typeof (Bool _) = ''boolean''"
| "typeof (Num _) = ''number''"
| "typeof (Str _) = ''string''"
| "typeof (Arr _ _) = ''object''"
| "typeof (Obj _ _) = ''object''"

fun isArray :: "jsval \<Rightarrow> bool" where
  "isArray (Arr _ _) = True"
| "isArray _ = False"

text \<open>\<open>v == null\<close>: true of \<open>null\<close> and of \<open>undefined\<close>.\<close>

fun is_nullish :: "jsval \<Rightarrow> bool" where
  "is_nullish Undefined = True"
| "is_nullish Null = True"
| "is_nullish _ = False"

text \<open>\<open>a === b\<close>. \<open>NaN\<close> is not equal to itself; objects are equal when they are one object.\<close>

fun strict_eq :: "jsval \<Rightarrow> jsval \<Rightarrow> bool" where
  "strict_eq Undefined Undefined = True"
| "strict_eq Null Null = True"
| "strict_eq (Bool a) (Bool b) = (a = b)"
| "strict_eq (Num a) (Num b) = (a \<noteq> NaN \<and> a = b)"
| "strict_eq (Str a) (Str b) = (a = b)"
| "strict_eq (Arr r _) (Arr r' _) = (r = r')"
| "strict_eq (Obj r _) (Obj r' _) = (r = r')"
| "strict_eq _ _ = False"

text \<open>
  A coercion may create objects, so it takes the next unused reference and returns the
  result together with the next reference that is still unused.
\<close>

type_synonym ('a, 'b) Coerce = "'a \<Rightarrow> nat \<Rightarrow> 'b \<times> nat"

section \<open>Built-in operations of the host\<close>

text \<open>
  The functions of the host that the code calls and that are not part of the repository.
  What the language standard fixes and the model can represent is defined below; the
  rest is a parameter:
  \<^item> \<open>JSON_parse\<close>: the parser of \<open>JSON.parse\<close>; \<open>None\<close> when it throws. It
    creates objects, so it takes and returns the next unused reference;
  \<^item> \<open>JSON_serialize\<close>: the text \<open>JSON.stringify\<close> produces for a value other than
    \<open>undefined\<close>; \<open>None\<close> when it throws;
  \<^item> \<open>fraction_toString\<close>: the text of a finite number that is not an integer below
    \<open>10^21\<close> in magnitude;
  \<^item> \<open>num_div\<close>, \<open>num_mul\<close>, \<open>num_rem\<close>, \<open>Math_round\<close>: \<open>/\<close>, \<open>*\<close>,
    \<open>%\<close> and \<open>Math.round\<close> on binary64 numbers.
\<close>

record host =
  JSON_parse :: "string \<Rightarrow> nat \<Rightarrow> (jsval \<times> nat) option"
  JSON_serialize :: "jsval \<Rightarrow> string option"
  fraction_toString :: "rat \<Rightarrow> string"
  num_div :: "jsnum \<Rightarrow> jsnum \<Rightarrow> jsnum"
  num_mul :: "jsnum \<Rightarrow> jsnum \<Rightarrow> jsnum"
  num_rem :: "jsnum \<Rightarrow> jsnum \<Rightarrow> jsnum"
  Math_round :: "jsnum \<Rightarrow> jsnum"

text \<open>\<open>JSON.stringify(undefined)\<close> is \<open>undefined\<close>, not a string, and does not throw.\<close>

definition JSON_stringify :: "host \<Rightarrow> jsval \<Rightarrow> jsval option" where
  "JSON_stringify h v =
     (if v = Undefined then Some Undefined else map_option Str (JSON_serialize h v))"

subsection \<open>Numbers to strings\<close>

fun show_nat :: "nat \<Rightarrow> string" where
  "show_nat n =
     (if n < 10 then [''0123456789'' ! n]
      else show_nat (n div 10) @ [''0123456789'' ! (n mod 10)])"

declare show_nat.simps [simp del]

definition is_integer :: "rat \<Rightarrow> bool" where
  "is_integer q = (of_int \<lfloor>q\<rfloor> = q)"

fun Number_toString :: "host \<Rightarrow> jsnum \<Rightarrow> string" where
  "Number_toString h NaN = ''NaN''"
| "Number_toString h PosInf = ''Infinity''"
| "Number_toString h NegInf = ''-Infinity''"
| "Number_toString h (Fin q) =
     (if is_integer q \<and> \<bar>q\<bar> < 10 ^ 21
      then (if q < 0 then ''-'' @ show_nat (nat \<lfloor>- q\<rfloor>) else show_nat (nat \<lfloor>q\<rfloor>))
      else fraction_toString h q)"

fun join :: "string \<Rightarrow> string list \<Rightarrow> string" where
  "join sep [] = []"
| "join sep [x] = x"
| "join sep (x # y # ys) = x @ sep @ join sep (y # ys)"

text \<open>
  \<open>String(v)\<close>. An array is joined with commas, a nullish element giving the empty
  string; a plain object gives \<open>[object Object]\<close>.
\<close>

fun ToString :: "host \<Rightarrow> jsval \<Rightarrow> string" where
  "ToString h Undefined = ''undefined''"
| "ToString h Null = ''null''"
| "ToString h (Bool b) = (if b then ''true'' else ''false'')"
| "ToString h (Num x) = Number_toString h x"
| "ToString h (Str s) = s"
| "ToString h (Arr r xs) =
     join '','' (map (\<lambda>x. if is_nullish x then [] else ToString h x) xs)"
| "ToString h (Obj r ps) = ''[object Object]''"

subsection \<open>Strings to numbers\<close>

text \<open>
  \<open>Number(s)\<close> on a string: white space is trimmed; the empty string is 0; then a
  decimal literal with an optional sign, fraction and exponent, \<open>Infinity\<close> with an
  optional sign, or an unsigned hexadecimal, octal or binary integer; anything else is
  \<open>NaN\<close>. The value is the rational the literal denotes.
\<close>

definition is_space :: "char \<Rightarrow> bool" where
  "is_space c = (c \<in> set [CHR 0x09, CHR 0x0A, CHR 0x0B, CHR 0x0C, CHR 0x0D, CHR '' ''])"

definition trim :: "string \<Rightarrow> string" where
  "trim s = rev (dropWhile is_space (rev (dropWhile is_space s)))"

definition digit_of :: "char \<Rightarrow> nat option" where
  "digit_of c =
     (let k = (of_char c :: nat) in
      if 48 \<le> k \<and> k \<le> 57 then Some (k - 48)
      else if 97 \<le> k \<and> k \<le> 102 then Some (k - 87)
      else if 65 \<le> k \<and> k \<le> 70 then Some (k - 55)
      else None)"

fun digits_value :: "nat \<Rightarrow> string \<Rightarrow> nat \<Rightarrow> nat option" where
  "digits_value b [] acc = Some acc"
| "digits_value b (c # cs) acc =
     (case digit_of c of
        Some d \<Rightarrow> if d < b then digits_value b cs (acc * b + d) else None
      | None \<Rightarrow> None)"

definition parse_digits :: "nat \<Rightarrow> string \<Rightarrow> nat option" where
  "parse_digits b s = (if s = [] then None else digits_value b s 0)"

definition split_at :: "(char \<Rightarrow> bool) \<Rightarrow> string \<Rightarrow> string \<times> string option" where
  "split_at p s =
     (takeWhile (\<lambda>c. \<not> p c) s,
      case dropWhile (\<lambda>c. \<not> p c) s of [] \<Rightarrow> None | _ # rest \<Rightarrow> Some rest)"

definition parse_exponent :: "string option \<Rightarrow> int option" where
  "parse_exponent e =
     (case e of
        None \<Rightarrow> Some 0
      | Some (CHR ''+'' # ds) \<Rightarrow> map_option int (parse_digits 10 ds)
      | Some (CHR ''-'' # ds) \<Rightarrow> map_option (\<lambda>k. - int k) (parse_digits 10 ds)
      | Some ds \<Rightarrow> map_option int (parse_digits 10 ds))"

definition pow10 :: "int \<Rightarrow> rat" where
  "pow10 e = (if 0 \<le> e then 10 ^ nat e else 1 / 10 ^ nat (- e))"

definition unsigned_decimal :: "string \<Rightarrow> jsnum" where
  "unsigned_decimal s =
     (if s = ''Infinity'' then PosInf
      else
        let (mantissa, expo) = split_at (\<lambda>c. c = CHR ''e'' \<or> c = CHR ''E'') s;
            (ip, fp) = split_at (\<lambda>c. c = CHR ''.'') mantissa;
            fd = (case fp of None \<Rightarrow> [] | Some f \<Rightarrow> f)
        in if ip = [] \<and> fd = [] then NaN
           else
             (case (digits_value 10 ip 0, digits_value 10 fd 0, parse_exponent expo) of
                (Some i, Some f, Some e) \<Rightarrow>
                  Fin ((of_nat i + of_nat f / 10 ^ length fd) * pow10 e)
              | _ \<Rightarrow> NaN))"

definition StringToNumber :: "string \<Rightarrow> jsnum" where
  "StringToNumber s =
     (let t = trim s in
      case t of
        [] \<Rightarrow> Fin 0
      | CHR ''+'' # u \<Rightarrow> unsigned_decimal u
      | CHR ''-'' # u \<Rightarrow> num_neg (unsigned_decimal u)
      | CHR ''0'' # c # u \<Rightarrow>
          (if c = CHR ''x'' \<or> c = CHR ''X''
             then (case parse_digits 16 u of Some k \<Rightarrow> Fin (of_nat k) | None \<Rightarrow> NaN)
           else if c = CHR ''o'' \<or> c = CHR ''O''
             then (case parse_digits 8 u of Some k \<Rightarrow> Fin (of_nat k) | None \<Rightarrow> NaN)
           else if c = CHR ''b'' \<or> c = CHR ''B''
             then (case parse_digits 2 u of Some k \<Rightarrow> Fin (of_nat k) | None \<Rightarrow> NaN)
           else unsigned_decimal t)
      | _ \<Rightarrow> unsigned_decimal t)"

text \<open>\<open>Number(v)\<close>: an object is converted through its string.\<close>

fun ToNumber :: "host \<Rightarrow> jsval \<Rightarrow> jsnum" where
  "ToNumber h Undefined = NaN"
| "ToNumber h Null = Fin 0"
| "ToNumber h (Bool b) = (if b then Fin 1 else Fin 0)"
| "ToNumber h (Num x) = x"
| "ToNumber h (Str s) = StringToNumber s"
| "ToNumber h (Arr r xs) = StringToNumber (ToString h (Arr r xs))"
| "ToNumber h (Obj r ps) = StringToNumber (ToString h (Obj r ps))"

definition isNaN :: "jsnum \<Rightarrow> bool" where
  "isNaN x = (x = NaN)"

text \<open>\<open>Boolean(v)\<close>.\<close>

fun ToBoolean :: "jsval \<Rightarrow> bool" where
  "ToBoolean Undefined = False"
| "ToBoolean Null = False"
| "ToBoolean (Bool b) = b"
| "ToBoolean (Num x) = (x \<noteq> NaN \<and> x \<noteq> Fin 0)"
| "ToBoolean (Str s) = (s \<noteq> [])"
| "ToBoolean (Arr _ _) = True"
| "ToBoolean (Obj _ _) = True"

subsection \<open>Properties\<close>

definition index_keys :: "nat \<Rightarrow> string list" where
  "index_keys n = map show_nat [0..<n]"

text \<open>The keys \<open>for (key in v)\<close> visits, in order.\<close>

fun own_keys :: "jsval \<Rightarrow> string list" where
  "own_keys (Obj r ps) = map fst ps"
| "own_keys (Arr r xs) = index_keys (length xs)"
| "own_keys _ = []"

text \<open>\<open>key in v\<close>, for an object \<open>v\<close>.\<close>

fun has_property :: "string \<Rightarrow> jsval \<Rightarrow> bool" where
  "has_property key (Obj r ps) = (key \<in> set (map fst ps))"
| "has_property key (Arr r xs) = (key = ''length'' \<or> key \<in> set (index_keys (length xs)))"
| "has_property key _ = False"

text \<open>\<open>v[key]\<close>, for an object \<open>v\<close>: \<open>undefined\<close> when there is no such property.\<close>

fun get_property :: "jsval \<Rightarrow> string \<Rightarrow> jsval" where
  "get_property (Obj r ps) key = (case map_of ps key of Some v \<Rightarrow> v | None \<Rightarrow> Undefined)"
| "get_property (Arr r xs) key =
     (if key = ''length'' then Num (Fin (of_nat (length xs)))
      else case filter (\<lambda>i. show_nat i = key) [0..<length xs] of
             i # _ \<Rightarrow> xs ! i
           | [] \<Rightarrow> Undefined)"
| "get_property _ key = Undefined"

text \<open>
  \<open>values[index] = x\<close> on an array, for a number \<open>index\<close>: an integer from 0 to
  \<open>2^32 - 2\<close> is an array index, and the array grows to hold it; any other number names
  a property that is not an element, and the elements stay as they are.
\<close>

definition array_index :: "jsnum \<Rightarrow> nat option" where
  "array_index x =
     (case x of
        Fin q \<Rightarrow> if is_integer q \<and> 0 \<le> q \<and> q < 2 ^ 32 - 1 then Some (nat \<lfloor>q\<rfloor>) else None
      | _ \<Rightarrow> None)"

definition array_assign :: "jsval list \<Rightarrow> jsnum \<Rightarrow> jsval \<Rightarrow> jsval list" where
  "array_assign values index x =
     (case array_index index of
        Some i \<Rightarrow>
          if i < length values then values[i := x]
          else values @ replicate (i - length values) Undefined @ [x]
      | None \<Rightarrow> values)"

subsection \<open>Structured clone\<close>

text \<open>
  \<open>structuredClone(v)\<close>: the same structure built from new objects. Every reference
  below the next unused one \<open>n\<close> is in use, so the copy of the object \<open>r\<close> is the new
  object \<open>n + r\<close>.
\<close>

fun shift_refs :: "nat \<Rightarrow> jsval \<Rightarrow> jsval" where
  "shift_refs n (Arr r xs) = Arr (n + r) (map (shift_refs n) xs)"
| "shift_refs n (Obj r ps) = Obj (n + r) (map (\<lambda>p. (fst p, shift_refs n (snd p))) ps)"
| "shift_refs n v = v"

fun refs_of :: "jsval \<Rightarrow> ref list" where
  "refs_of (Arr r xs) = r # concat (map refs_of xs)"
| "refs_of (Obj r ps) = r # concat (map (\<lambda>p. refs_of (snd p)) ps)"
| "refs_of v = []"

definition structuredClone :: "(jsval, jsval) Coerce" where
  "structuredClone v n = (shift_refs n v, n + Suc (fold max (refs_of v) 0))"

section \<open>Validation results and their interpreters (generic/validation.ts)\<close>

record 'e ErrorLog =
  errors :: "'e list"

record 'r ValidationParser =
  isValid :: "'r \<Rightarrow> bool"
  getValid :: "'r"
  rateValidity :: "'r \<Rightarrow> jsnum"

definition BooleanValidationParser :: "bool ValidationParser" where
  "BooleanValidationParser =
     \<lparr> isValid = (\<lambda>v. v), getValid = True,
       rateValidity = (\<lambda>v. if v then Fin 1 else Fin 0) \<rparr>"

definition ErrorLogValidationParser :: "('e ErrorLog) ValidationParser" where
  "ErrorLogValidationParser =
     \<lparr> isValid = (\<lambda>v. length (errors v) < 1),
       getValid = \<lparr> errors = [] \<rparr>,
       rateValidity = (\<lambda>v. Fin (1 - of_nat (length (errors v)))) \<rparr>"

text \<open>
  \<open>mergeValidateSteps\<close>: the loop returns from inside at the first result the parser
  does not accept.
\<close>

fun mergeValidateSteps :: "('s \<Rightarrow> 'r) list \<Rightarrow> 'r ValidationParser \<Rightarrow> 's \<Rightarrow> 'r" where
  "mergeValidateSteps [] validationParser v = getValid validationParser"
| "mergeValidateSteps (validate # steps) validationParser v =
     (let validation = validate v in
      if \<not> isValid validationParser validation then validation
      else mergeValidateSteps steps validationParser v)"

section \<open>Constraints (generic/coercion.ts)\<close>

fun mergeCoerceSteps :: "(('v, 'v) Coerce) list \<Rightarrow> ('v, 'v) Coerce" where
  "mergeCoerceSteps [] converted n = (converted, n)"
| "mergeCoerceSteps (coerce # steps) converted n =
     (case coerce converted n of (converted', n') \<Rightarrow> mergeCoerceSteps steps converted' n')"

record ('s, 'r, 'v) ValueConstraint =
  validate :: "'s \<Rightarrow> 'r"
  coerce :: "(('s, 'v) Coerce) option"

definition echoValue :: "('a, 'a) Coerce" where
  "echoValue v n = (v, n)"

subsection \<open>Type enforcers\<close>

text \<open>
  \<open>ValueTypeEnforcer\<close> and its subclasses. A default value that was not given is
  \<open>undefined\<close>. The constraint a type rule needs has both members
  (\<open>Required<ValueConstraint>\<close>).
\<close>

record ValueTypeEnforcer =
  typeName :: string
  defaultValue :: jsval
  valueProperty :: "string option"

record ('s, 'r, 'v) RequiredConstraint =
  required_validate :: "'s \<Rightarrow> 'r"
  required_coerce :: "('s, 'v) Coerce"

definition ValueTypeEnforcer_validate :: "ValueTypeEnforcer \<Rightarrow> jsval \<Rightarrow> bool" where
  "ValueTypeEnforcer_validate this v = (typeof v = typeName this)"

definition unwrap :: "ValueTypeEnforcer \<Rightarrow> jsval \<Rightarrow> jsval" where
  "unwrap this v =
     (case valueProperty this of
        Some p \<Rightarrow>
          if typeof v = ''object'' \<and> \<not> is_nullish v \<and> has_property p v
          then get_property v p else v
      | None \<Rightarrow> v)"

definition ArrayEnforcer :: "jsval \<Rightarrow> string option \<Rightarrow> ValueTypeEnforcer" where
  "ArrayEnforcer d p = \<lparr> typeName = ''array'', defaultValue = d, valueProperty = p \<rparr>"

definition ArrayEnforcer_validate :: "jsval \<Rightarrow> bool" where
  "ArrayEnforcer_validate v = isArray v"

text \<open>The loop over the keys of a non-array object in \<open>ArrayEnforcer.coerce\<close>.\<close>

fun arrayFromKeys :: "jsval \<Rightarrow> string list \<Rightarrow> jsval list \<Rightarrow> jsval list" where
  "arrayFromKeys unwrapped [] values = values"
| "arrayFromKeys unwrapped (key # keys) values =
     (let index = StringToNumber key in
      arrayFromKeys unwrapped keys
        (if \<not> isNaN index then array_assign values index (get_property unwrapped key)
         else values))"

text \<open>
  The \<open>switch\<close> of \<open>ArrayEnforcer.coerce\<close>: \<open>Some\<close> is the value a \<open>return\<close>
  inside it gives, \<open>None\<close> means that control leaves the \<open>switch\<close>.
\<close>

fun arraySwitch :: "host \<Rightarrow> jsval \<Rightarrow> nat \<Rightarrow> jsval option \<times> nat" where
  "arraySwitch h (Str s) n =
     (case JSON_parse h s n of
        Some (parsed, n') \<Rightarrow> if isArray parsed then (Some parsed, n') else (None, n')
      | None \<Rightarrow> (None, n))"
| "arraySwitch h Null n = (None, n)"
| "arraySwitch h (Arr r xs) n = (Some (Arr r xs), n)"
| "arraySwitch h (Obj r ps) n =
     (Some (Arr n (arrayFromKeys (Obj r ps) (own_keys (Obj r ps)) [])), Suc n)"
| "arraySwitch h v n = (None, n)"

definition ArrayEnforcer_coerce :: "host \<Rightarrow> ValueTypeEnforcer \<Rightarrow> (jsval, jsval) Coerce" where
  "ArrayEnforcer_coerce h this v n =
     (let unwrapped = unwrap this v in
      case arraySwitch h unwrapped n of
        (Some result, n') \<Rightarrow> (result, n')
      | (None, n') \<Rightarrow>
          if \<not> is_nullish (defaultValue this) \<and> is_nullish unwrapped
          then structuredClone (defaultValue this) n'
          else (Arr n' [unwrapped], Suc n'))"

definition BooleanEnforcer :: "jsval \<Rightarrow> string option \<Rightarrow> ValueTypeEnforcer" where
  "BooleanEnforcer d p = \<lparr> typeName = ''boolean'', defaultValue = d, valueProperty = p \<rparr>"

definition BooleanEnforcer_coerce :: "ValueTypeEnforcer \<Rightarrow> (jsval, jsval) Coerce" where
  "BooleanEnforcer_coerce this v n =
     (let unwrapped = unwrap this v in
      if is_nullish unwrapped \<and> \<not> is_nullish (defaultValue this)
      then (defaultValue this, n)
      else (Bool (ToBoolean unwrapped), n))"

definition NumberEnforcer :: "jsval \<Rightarrow> string option \<Rightarrow> ValueTypeEnforcer" where
  "NumberEnforcer d p = \<lparr> typeName = ''number'', defaultValue = d, valueProperty = p \<rparr>"

definition NumberEnforcer_coerce :: "host \<Rightarrow> ValueTypeEnforcer \<Rightarrow> (jsval, jsval) Coerce" where
  "NumberEnforcer_coerce h this v n =
     (let unwrapped = unwrap this v;
          num = ToNumber h unwrapped
      in if isNaN num
         then (if is_nullish (defaultValue this) then Num (Fin 0) else defaultValue this, n)
         else (Num num, n))"

record SteppedNumberEnforcer = ValueTypeEnforcer +
  step :: jsnum

definition SteppedNumberEnforcer :: "jsval \<Rightarrow> jsnum \<Rightarrow> string option \<Rightarrow> SteppedNumberEnforcer" where
  "SteppedNumberEnforcer d s p =
     \<lparr> typeName = ''number'', defaultValue = d, valueProperty = p, step = s \<rparr>"

definition SteppedNumberEnforcer_validate :: "host \<Rightarrow> SteppedNumberEnforcer \<Rightarrow> jsval \<Rightarrow> bool" where
  "SteppedNumberEnforcer_validate h this v =
     (case v of
        Num x \<Rightarrow> step this = Fin 0 \<or> num_rem h x (step this) = Fin 0
      | _ \<Rightarrow> False)"

definition SteppedNumberEnforcer_coerce ::
  "host \<Rightarrow> SteppedNumberEnforcer \<Rightarrow> (jsval, jsval) Coerce" where
  "SteppedNumberEnforcer_coerce h this v n =
     (case NumberEnforcer_coerce h (ValueTypeEnforcer.truncate this) v n of
        (num, n') \<Rightarrow>
          if step this \<noteq> Fin 0
          then (Num (num_mul h (Math_round h (num_div h (ToNumber h num) (step this))) (step this)), n')
          else (num, n'))"

definition ObjectEnforcer :: "jsval \<Rightarrow> string option \<Rightarrow> ValueTypeEnforcer" where
  "ObjectEnforcer d p = \<lparr> typeName = ''object'', defaultValue = d, valueProperty = p \<rparr>"

definition ObjectEnforcer_validate :: "jsval \<Rightarrow> bool" where
  "ObjectEnforcer_validate v = (typeof v = ''object'' \<and> \<not> is_nullish v \<and> \<not> isArray v)"

text \<open>The loop over the elements of an array in \<open>ObjectEnforcer.coerce\<close>.\<close>

fun objectFromArray :: "jsval list \<Rightarrow> nat \<Rightarrow> (string \<times> jsval) list" where
  "objectFromArray [] i = []"
| "objectFromArray (indexedValue # xs) i =
     (if indexedValue \<noteq> Undefined then [(show_nat i, indexedValue)] else [])
       @ objectFromArray xs (Suc i)"

fun objectSwitch :: "host \<Rightarrow> jsval \<Rightarrow> nat \<Rightarrow> jsval option \<times> nat" where
  "objectSwitch h (Str s) n =
     (case JSON_parse h s n of
        Some (parsed, n') \<Rightarrow>
          if ObjectEnforcer_validate parsed then (Some parsed, n') else (None, n')
      | None \<Rightarrow> (None, n))"
| "objectSwitch h Null n = (None, n)"
| "objectSwitch h (Arr r xs) n = (Some (Obj n (objectFromArray xs 0)), Suc n)"
| "objectSwitch h (Obj r ps) n = (Some (Obj r ps), n)"
| "objectSwitch h v n = (None, n)"

definition ObjectEnforcer_coerce :: "host \<Rightarrow> ValueTypeEnforcer \<Rightarrow> (jsval, jsval) Coerce" where
  "ObjectEnforcer_coerce h this v n =
     (case objectSwitch h v n of
        (Some result, n') \<Rightarrow> (result, n')
      | (None, n') \<Rightarrow>
          if \<not> is_nullish (defaultValue this)
          then structuredClone (defaultValue this) n'
          else (case valueProperty this of
                  Some p \<Rightarrow> (Obj n' [(p, v)], Suc n')
                | None \<Rightarrow> (Obj n' [], Suc n')))"

definition StringEnforcer :: "jsval \<Rightarrow> string option \<Rightarrow> ValueTypeEnforcer" where
  "StringEnforcer d p = \<lparr> typeName = ''string'', defaultValue = d, valueProperty = p \<rparr>"

text \<open>
  \<open>StringEnforcer.coerce\<close>: the \<open>catch\<close> branch, \<open>String(unwrapped)\<close>, runs only when
  \<open>JSON.stringify\<close> throws; what \<open>JSON.stringify\<close> returns is returned as it is.
\<close>

definition StringEnforcer_coerce :: "host \<Rightarrow> ValueTypeEnforcer \<Rightarrow> (jsval, jsval) Coerce" where
  "StringEnforcer_coerce h this v n =
     (let unwrapped = unwrap this v in
      if typeof unwrapped = ''string'' then (unwrapped, n)
      else if is_nullish unwrapped \<and> \<not> is_nullish (defaultValue this)
        then (defaultValue this, n)
      else (case JSON_stringify h unwrapped of
              Some text \<Rightarrow> (text, n)
            | None \<Rightarrow> (Str (ToString h unwrapped), n)))"

text \<open>\<open>isEquivalentTo\<close>: both loops can only return \<open>false\<close>; the result is \<open>a === b\<close>.\<close>

function isEquivalentTo :: "jsval \<Rightarrow> jsval \<Rightarrow> bool" where
  "isEquivalentTo a b =
     (if typeof a = ''object'' \<and> \<not> is_nullish a \<and> typeof b = ''object'' \<and> \<not> is_nullish b
      then
        (if list_ex (\<lambda>key. \<not> isEquivalentTo (get_property a key) (get_property b key))
              (own_keys a)
         then False
         else if list_ex (\<lambda>key. \<not> isEquivalentTo (get_property a key) (get_property b key))
              (filter (\<lambda>key. key \<notin> set (own_keys a)) (own_keys b))
         then False
         else strict_eq a b)
      else strict_eq a b)"
  by pat_completeness auto
termination
proof -
  have size_get_property: "size (get_property a key) < size a"
    if "typeof a = ''object''" and "\<not> is_nullish a" for a key
  proof (cases a)
    case (Arr r xs)
    show ?thesis
    proof (cases "key = ''length''")
      case True
      then show ?thesis unfolding Arr by simp
    next
      case False
      show ?thesis
      proof (cases "filter (\<lambda>i. show_nat i = key) [0..<length xs]")
        case Nil
        then show ?thesis unfolding Arr using False by simp
      next
        case (Cons i rest)
        have "i \<in> set (filter (\<lambda>i. show_nat i = key) [0..<length xs])"
          unfolding Cons by simp
        then have "i < length xs" by simp
        then have "xs ! i \<in> set xs" by simp
        then have "size (xs ! i) \<le> size_list size xs" by (rule size_list_estimation') simp
        then show ?thesis unfolding Arr using False Cons by simp
      qed
    qed
  next
    case (Obj r ps)
    show ?thesis
    proof (cases "map_of ps key")
      case None
      then show ?thesis unfolding Obj by simp
    next
      case (Some v)
      then have "(key, v) \<in> set ps" by (rule map_of_SomeD)
      then have "size_prod (\<lambda>_. 0) size (key, v) \<le> size_list (size_prod (\<lambda>_. 0) size) ps"
        by (rule size_list_estimation') simp
      then show ?thesis unfolding Obj using Some by simp
    qed
  qed (use that in simp_all)
  show ?thesis
    by (relation "measure (\<lambda>(a, b). size a + size b)")
       (auto simp: size_get_property add_less_mono)
qed

declare isEquivalentTo.simps [simp del]

definition StrictEqualityEnforcer :: "jsval \<Rightarrow> (jsval, bool, jsval) RequiredConstraint" where
  "StrictEqualityEnforcer value =
     \<lparr> required_validate = (\<lambda>v. strict_eq v value),
       required_coerce = (\<lambda>v n. (value, n)) \<rparr>"

definition AnyValueEnforcer :: "(jsval, bool, jsval) RequiredConstraint" where
  "AnyValueEnforcer =
     \<lparr> required_validate = (\<lambda>v. True), required_coerce = (\<lambda>v n. (v, n)) \<rparr>"

section \<open>Keyword errors, keyword enforcers and forks (generic/keywords.ts)\<close>

text \<open>
  A \<open>KeywordError\<close>; the optional members \<open>priority\<close> and \<open>coerce\<close> are options, and
  so is \<open>keyword\<close>, which the error of the \<open>false\<close> schema leaves out.
\<close>

record ('a, 'b) KeywordError =
  error_keyword :: "string option"
  error_value :: jsval
  error_target :: 'a
  error_priority :: "jsnum option"
  error_coerce :: "(('a, 'b) Coerce) option"

type_synonym ('a, 'b) KeywordErrorLog = "(('a, 'b) KeywordError) ErrorLog"

type_synonym ('a, 'b) KeywordConstraint = "('a, ('a, 'b) KeywordErrorLog, 'b) ValueConstraint"

record ('a, 'b) KeywordValueEnforcer =
  keyword :: string
  keyword_value :: jsval
  check :: "'a \<Rightarrow> bool"
  keyword_coerce :: "(('a, 'b) Coerce) option"
  priority :: jsnum

definition KeywordValueEnforcer_validate ::
  "('a, 'b) KeywordValueEnforcer \<Rightarrow> 'a \<Rightarrow> ('a, 'b) KeywordErrorLog" where
  "KeywordValueEnforcer_validate this target =
     (if check this target then \<lparr> errors = [] \<rparr>
      else \<lparr> errors =
        [\<lparr> error_keyword = Some (keyword this),
           error_value = keyword_value this,
           error_target = target,
           error_priority = Some (priority this),
           error_coerce = keyword_coerce this \<rparr>] \<rparr>)"

definition KeywordValueEnforcer_constraint ::
  "('a, 'b) KeywordValueEnforcer \<Rightarrow> ('a, 'b) KeywordConstraint" where
  "KeywordValueEnforcer_constraint this =
     \<lparr> validate = KeywordValueEnforcer_validate this, coerce = keyword_coerce this \<rparr>"

text \<open>
  \<open>KeywordErrorLogValidationParser.rateValidity\<close>: the running maximum starts at 0 and
  is replaced by a priority that is present and greater.
\<close>

fun maxErrorPriority :: "(('a, 'b) KeywordError) list \<Rightarrow> jsnum \<Rightarrow> jsnum" where
  "maxErrorPriority [] m = m"
| "maxErrorPriority (e # es) m =
     maxErrorPriority es
       (case error_priority e of
          Some p \<Rightarrow> if num_gt p m then p else m
        | None \<Rightarrow> m)"

definition KeywordErrorLog_rateValidity :: "('a, 'b) KeywordErrorLog \<Rightarrow> jsnum" where
  "KeywordErrorLog_rateValidity v =
     (if length (errors v) > 0 then num_neg (maxErrorPriority (errors v) (Fin 0))
      else Fin 1)"

definition KeywordErrorLogValidationParser :: "(('a, 'b) KeywordErrorLog) ValidationParser" where
  "KeywordErrorLogValidationParser =
     ErrorLogValidationParser \<lparr> rateValidity := KeywordErrorLog_rateValidity \<rparr>"

record ('a, 'b) KeywordEnforcerFork =
  branches :: "(('a, 'b) KeywordConstraint) list"
  defaultCoerce :: "('a, 'b) Coerce"

text \<open>
  \<open>getHighestPriorityError\<close>: \<open>highestPriority\<close> is a constant of the source, the
  negative infinity, and the loop never assigns it.
\<close>

definition priority_or_0 :: "('a, 'b) KeywordError \<Rightarrow> jsnum" where
  "priority_or_0 e = (case error_priority e of Some p \<Rightarrow> p | None \<Rightarrow> Fin 0)"

fun highestPriorityLoop ::
  "(('a, 'b) KeywordError) list \<Rightarrow> (('a, 'b) KeywordError) option \<Rightarrow> (('a, 'b) KeywordError) option" where
  "highestPriorityLoop [] match = match"
| "highestPriorityLoop (e # es) match =
     (let highestPriority = NegInf; priority = priority_or_0 e in
      highestPriorityLoop es
        (if match = None \<or> num_gt priority highestPriority then Some e else match))"

definition getHighestPriorityError ::
  "(('a, 'b) KeywordError) list \<Rightarrow> (('a, 'b) KeywordError) option" where
  "getHighestPriorityError es = highestPriorityLoop es None"

fun forkValidateLoop ::
  "(('a, 'b) KeywordConstraint) list \<Rightarrow> 'a \<Rightarrow> (('a, 'b) KeywordErrorLog) option \<Rightarrow> jsnum
     \<Rightarrow> ('a, 'b) KeywordErrorLog" where
  "forkValidateLoop [] target result lowestPriority =
     (case result of Some r \<Rightarrow> r | None \<Rightarrow> \<lparr> errors = [] \<rparr>)"
| "forkValidateLoop (branch # bs) target result lowestPriority =
     (let validation = validate branch target in
      if length (errors validation) < 1 then validation
      else
        let priority =
          (case getHighestPriorityError (errors validation) of
             Some e \<Rightarrow> priority_or_0 e
           | None \<Rightarrow> Fin 0)
        in if result = None \<or> num_lt priority lowestPriority
           then forkValidateLoop bs target (Some validation) priority
           else forkValidateLoop bs target result lowestPriority)"

definition KeywordEnforcerFork_validate ::
  "('a, 'b) KeywordEnforcerFork \<Rightarrow> 'a \<Rightarrow> ('a, 'b) KeywordErrorLog" where
  "KeywordEnforcerFork_validate this target =
     forkValidateLoop (branches this) target None PosInf"

definition KeywordEnforcerFork_coerce :: "('a, 'b) KeywordEnforcerFork \<Rightarrow> ('a, 'b) Coerce" where
  "KeywordEnforcerFork_coerce this v =
     (let validation = KeywordEnforcerFork_validate this v in
      case errors validation of
        [] \<Rightarrow> defaultCoerce this v
      | error # _ \<Rightarrow>
          (case error_coerce error of
             Some c \<Rightarrow> c v
           | None \<Rightarrow> defaultCoerce this v))"

definition KeywordEnforcerFork_constraint ::
  "('a, 'b) KeywordEnforcerFork \<Rightarrow> ('a, 'b) KeywordConstraint" where
  "KeywordEnforcerFork_constraint this =
     \<lparr> validate = KeywordEnforcerFork_validate this,
       coerce = Some (KeywordEnforcerFork_coerce this) \<rparr>"

text \<open>
  A call that throws is the left summand. The only exception the modelled code can raise
  is the \<open>TypeError\<close> of calling a member that is not a function.
\<close>

datatype js_error = TypeError

fun sequence_sum :: "('e + 'a) list \<Rightarrow> 'e + 'a list" where
  "sequence_sum [] = Inr []"
| "sequence_sum (x # xs) =
     (case x of
        Inl e \<Rightarrow> Inl e
      | Inr v \<Rightarrow> (case sequence_sum xs of Inl e \<Rightarrow> Inl e | Inr vs \<Rightarrow> Inr (v # vs)))"

text \<open>A \<open>KeywordEnforcerContext\<close> wraps one map, from keywords to constraints.\<close>

type_synonym ('a, 'b) KeywordEnforcerContext = "string \<rightharpoonup> ('a, 'b) KeywordConstraint"

record ('a, 'b) KeywordRule =
  rule_keyword :: string
  getEnforcerFor ::
    "jsval \<Rightarrow> ('a, 'b) KeywordEnforcerContext \<Rightarrow> js_error + (('a, 'b) KeywordConstraint) option"

record ('s, 'r, 'v) SchemaEnforcer = "('s, 'r, 'v) ValueConstraint" +
  schema :: jsval

record ('a, 'b) KeywordRulesEnforcer = "('a, ('a, 'b) KeywordErrorLog, 'b) SchemaEnforcer" +
  enforcers :: "('a, 'b) KeywordEnforcerContext"

record 'a SequentialKeywordEnforcerFactory =
  rules :: "(('a, 'a) KeywordRule) list"
  validationParser :: "(('a, 'a) KeywordErrorLog) ValidationParser"

definition SequentialKeywordEnforcerFactory ::
  "(('a, 'a) KeywordRule) list \<Rightarrow> 'a SequentialKeywordEnforcerFactory" where
  "SequentialKeywordEnforcerFactory rs =
     \<lparr> rules = rs, validationParser = ErrorLogValidationParser \<rparr>"

text \<open>The loop of \<open>process\<close> over the rules, with the three collections it fills.\<close>

fun processLoop ::
  "(('a, 'a) KeywordRule) list \<Rightarrow> jsval \<Rightarrow> ('a, 'a) KeywordEnforcerContext
   \<Rightarrow> ('a, 'a) KeywordEnforcerContext \<times> ('a \<Rightarrow> ('a, 'a) KeywordErrorLog) list \<times> (('a, 'a) Coerce) list
   \<Rightarrow> js_error +
       ('a, 'a) KeywordEnforcerContext \<times> ('a \<Rightarrow> ('a, 'a) KeywordErrorLog) list \<times> (('a, 'a) Coerce) list" where
  "processLoop [] sch context acc = Inr acc"
| "processLoop (rule # rs) sch context (enfs, validateQueue, coerceQueue) =
     (case getEnforcerFor rule sch context of
        Inl e \<Rightarrow> Inl e
      | Inr None \<Rightarrow> processLoop rs sch context (enfs, validateQueue, coerceQueue)
      | Inr (Some ruleEnforcer) \<Rightarrow>
          processLoop rs sch context
            (enfs(rule_keyword rule \<mapsto> ruleEnforcer),
             validateQueue @ [validate ruleEnforcer],
             (case coerce ruleEnforcer of
                Some c \<Rightarrow> coerceQueue @ [c]
              | None \<Rightarrow> coerceQueue)))"

definition SequentialKeywordEnforcerFactory_process ::
  "'a SequentialKeywordEnforcerFactory \<Rightarrow> jsval \<Rightarrow> ('a, 'a) KeywordEnforcerContext
   \<Rightarrow> js_error + ('a, 'a) KeywordRulesEnforcer" where
  "SequentialKeywordEnforcerFactory_process this sch context =
     (case processLoop (rules this) sch context (Map.empty, [], []) of
        Inl e \<Rightarrow> Inl e
      | Inr (enfs, validateQueue, coerceQueue) \<Rightarrow>
          Inr \<lparr> validate = mergeValidateSteps validateQueue (validationParser this),
                coerce = (if length coerceQueue > 0 then Some (mergeCoerceSteps coerceQueue)
                          else None),
                schema = sch,
                enforcers = enfs \<rparr>)"

text \<open>
  \<open>TypeKeywordEnforcer\<close>. Its constructor takes \<open>rulesEnforcer\<close> and does not store
  it: the member keeps its initial value, \<open>undefined\<close>. The coercion the constructor
  installs reads the member.
\<close>

record 'a TypeKeywordEnforcer = "('a, 'a) KeywordValueEnforcer" +
  coerceType :: "('a, 'a) Coerce"
  rulesEnforcer :: "(('a, 'a) KeywordRulesEnforcer) option"

definition typeCoerce ::
  "('a, 'a) Coerce \<Rightarrow> (('a, 'a) KeywordRulesEnforcer) option \<Rightarrow> ('a, 'a) Coerce" where
  "typeCoerce ct re v n =
     (case ct v n of
        (typedValue, n') \<Rightarrow>
          (case re of
             Some r \<Rightarrow> (case coerce r of Some c \<Rightarrow> c typedValue n' | None \<Rightarrow> (typedValue, n'))
           | None \<Rightarrow> (typedValue, n')))"

definition TypeKeywordEnforcer ::
  "string \<Rightarrow> jsval \<Rightarrow> ('a \<Rightarrow> bool) \<Rightarrow> ('a, 'a) Coerce \<Rightarrow> (('a, 'a) KeywordRulesEnforcer) option
   \<Rightarrow> jsnum \<Rightarrow> 'a TypeKeywordEnforcer" where
  "TypeKeywordEnforcer k v chk ct rulesEnforcerArgument p =
     (let member = None in
      \<lparr> keyword = k, keyword_value = v, check = chk,
        keyword_coerce = Some (typeCoerce ct member),
        priority = p, coerceType = ct, rulesEnforcer = member \<rparr>)"

definition TypeKeywordEnforcer_validate ::
  "'a TypeKeywordEnforcer \<Rightarrow> 'a \<Rightarrow> ('a, 'a) KeywordErrorLog" where
  "TypeKeywordEnforcer_validate this target =
     (let typeCheck = KeywordValueEnforcer_validate (KeywordValueEnforcer.truncate this) target in
      case rulesEnforcer this of
        Some r \<Rightarrow> if length (errors typeCheck) < 1 then validate r target else typeCheck
      | None \<Rightarrow> typeCheck)"

definition TypeKeywordEnforcer_constraint ::
  "'a TypeKeywordEnforcer \<Rightarrow> ('a, 'a) KeywordConstraint" where
  "TypeKeywordEnforcer_constraint this =
     \<lparr> validate = TypeKeywordEnforcer_validate this, coerce = keyword_coerce this \<rparr>"

record 'a TypeKeywordRule =
  type_keyword :: string
  typeEnforcer :: "('a, bool, 'a) RequiredConstraint"
  typedKeywords :: "('a SequentialKeywordEnforcerFactory) option"

definition TypeKeywordRule_getEnforcerFor ::
  "'a TypeKeywordRule \<Rightarrow> jsval \<Rightarrow> ('a, 'a) KeywordEnforcerContext
   \<Rightarrow> js_error + ('a, 'a) KeywordConstraint" where
  "TypeKeywordRule_getEnforcerFor this sch context =
     (case (case typedKeywords this of
              None \<Rightarrow> Inr None
            | Some f \<Rightarrow> map_sum id Some (SequentialKeywordEnforcerFactory_process f sch context)) of
        Inl e \<Rightarrow> Inl e
      | Inr typedEnforcer \<Rightarrow>
          Inr (TypeKeywordEnforcer_constraint
                 (TypeKeywordEnforcer (type_keyword this)
                    (get_property sch (type_keyword this))
                    (required_validate (typeEnforcer this))
                    (required_coerce (typeEnforcer this))
                    typedEnforcer
                    (Fin 100))))"

section \<open>JSON schema rules (json-schema/coercion.ts)\<close>

definition required_of ::
  "(jsval \<Rightarrow> bool) \<Rightarrow> (jsval, jsval) Coerce \<Rightarrow> (jsval, bool, jsval) RequiredConstraint" where
  "required_of v c = \<lparr> required_validate = v, required_coerce = c \<rparr>"

definition TypeKeywordRule ::
  "string \<Rightarrow> (jsval, bool, jsval) RequiredConstraint \<Rightarrow> jsval TypeKeywordRule" where
  "TypeKeywordRule k e = \<lparr> type_keyword = k, typeEnforcer = e, typedKeywords = None \<rparr>"

text \<open>\<open>createJSONSchemaTypeRules\<close>: the table of the eight type names, in its order.\<close>

definition createJSONSchemaTypeRules ::
  "host \<Rightarrow> string \<Rightarrow> string option \<Rightarrow> (string \<times> jsval TypeKeywordRule) list" where
  "createJSONSchemaTypeRules h k valueProp =
     [(''any'', TypeKeywordRule k AnyValueEnforcer),
      (''array'', TypeKeywordRule k
         (required_of ArrayEnforcer_validate
            (ArrayEnforcer_coerce h (ArrayEnforcer Undefined valueProp)))),
      (''boolean'', TypeKeywordRule k
         (required_of (ValueTypeEnforcer_validate (BooleanEnforcer (Bool False) valueProp))
            (BooleanEnforcer_coerce (BooleanEnforcer (Bool False) valueProp)))),
      (''integer'', TypeKeywordRule k
         (required_of
            (SteppedNumberEnforcer_validate h (SteppedNumberEnforcer (Num (Fin 0)) (Fin 1) valueProp))
            (SteppedNumberEnforcer_coerce h (SteppedNumberEnforcer (Num (Fin 0)) (Fin 1) valueProp)))),
      (''null'', TypeKeywordRule k (StrictEqualityEnforcer Null)),
      (''number'', TypeKeywordRule k
         (required_of (ValueTypeEnforcer_validate (NumberEnforcer (Num (Fin 0)) valueProp))
            (NumberEnforcer_coerce h (NumberEnforcer (Num (Fin 0)) valueProp)))),
      (''object'', TypeKeywordRule k
         (required_of ObjectEnforcer_validate
            (ObjectEnforcer_coerce h (ObjectEnforcer Undefined valueProp)))),
      (''string'', TypeKeywordRule k
         (required_of (ValueTypeEnforcer_validate (StringEnforcer (Str []) valueProp))
            (StringEnforcer_coerce h (StringEnforcer (Str []) valueProp))))]"

text \<open>
  \<open>typeRules[name]\<close>: the table is a plain object, so a name that is not one of its
  keys still finds the members every object inherits. Such a member is not nullish and
  has no \<open>getEnforcerFor\<close>.
\<close>

datatype 'a member = Own 'a | Inherited | Absent

definition object_prototype_keys :: "string list" where
  "object_prototype_keys =
     [''constructor'', ''hasOwnProperty'', ''isPrototypeOf'', ''propertyIsEnumerable'',
      ''toLocaleString'', ''toString'', ''valueOf'', ''__proto__'',
      ''__defineGetter__'', ''__defineSetter__'', ''__lookupGetter__'', ''__lookupSetter__'']"

definition table_member :: "(string \<times> 'a) list \<Rightarrow> string \<Rightarrow> 'a member" where
  "table_member table name =
     (case map_of table name of
        Some v \<Rightarrow> Own v
      | None \<Rightarrow> if name \<in> set object_prototype_keys then Inherited else Absent)"

fun is_string :: "jsval \<Rightarrow> bool" where
  "is_string (Str _) = True"
| "is_string _ = False"

fun string_of :: "jsval \<Rightarrow> string" where
  "string_of (Str s) = s"
| "string_of _ = []"

fun is_present :: "'a member \<Rightarrow> bool" where
  "is_present Absent = False"
| "is_present _ = True"

record JSONSchemaTypeRule =
  type_rule_keyword :: string
  typeRules :: "(string \<times> jsval TypeKeywordRule) list"

definition JSONSchemaTypeRule :: "host \<Rightarrow> JSONSchemaTypeRule" where
  "JSONSchemaTypeRule h =
     \<lparr> type_rule_keyword = ''type'',
       typeRules = createJSONSchemaTypeRules h ''type'' None \<rparr>"

definition member_getEnforcerFor ::
  "(jsval TypeKeywordRule) member \<Rightarrow> jsval \<Rightarrow> (jsval, jsval) KeywordEnforcerContext
   \<Rightarrow> js_error + (jsval, jsval) KeywordConstraint" where
  "member_getEnforcerFor rule sch context =
     (case rule of
        Own r \<Rightarrow> TypeKeywordRule_getEnforcerFor r sch context
      | _ \<Rightarrow> Inl TypeError)"

definition JSONSchemaTypeRule_getEnforcerFor ::
  "JSONSchemaTypeRule \<Rightarrow> jsval \<Rightarrow> (jsval, jsval) KeywordEnforcerContext
   \<Rightarrow> js_error + ((jsval, jsval) KeywordConstraint) option" where
  "JSONSchemaTypeRule_getEnforcerFor this sch context =
     (let typeValue = get_property sch (type_rule_keyword this) in
      case typeValue of
        Str name \<Rightarrow>
          (case table_member (typeRules this) name of
             Absent \<Rightarrow> Inr None
           | typeRule \<Rightarrow> map_sum id Some (member_getEnforcerFor typeRule sch context))
      | Arr r items \<Rightarrow>
          (let typeNames = map string_of (filter is_string items);
               targetRules = filter is_present (map (table_member (typeRules this)) typeNames)
           in case sequence_sum (map (\<lambda>rule. member_getEnforcerFor rule sch context) targetRules) of
                Inl e \<Rightarrow> Inl e
              | Inr typeEnforcers \<Rightarrow>
                  Inr (Some (KeywordEnforcerFork_constraint
                    \<lparr> branches = typeEnforcers, defaultCoerce = echoValue \<rparr>)))
      | _ \<Rightarrow> Inr None)"

definition JSONSchemaTypeRule_rule :: "JSONSchemaTypeRule \<Rightarrow> (jsval, jsval) KeywordRule" where
  "JSONSchemaTypeRule_rule this =
     \<lparr> rule_keyword = type_rule_keyword this,
       getEnforcerFor = JSONSchemaTypeRule_getEnforcerFor this \<rparr>"

definition JSONSchemaConstRule_getEnforcerFor ::
  "string \<Rightarrow> jsval \<Rightarrow> (jsval, jsval) KeywordEnforcerContext
   \<Rightarrow> js_error + ((jsval, jsval) KeywordConstraint) option" where
  "JSONSchemaConstRule_getEnforcerFor k sch context =
     (let v = get_property sch k in
      if v \<noteq> Undefined
      then Inr (Some (KeywordValueEnforcer_constraint
             \<lparr> keyword = k, keyword_value = v,
               check = (\<lambda>target. isEquivalentTo target v),
               keyword_coerce = Some (\<lambda>target. structuredClone v),
               priority = Fin 150 \<rparr>))
      else Inr None)"

definition JSONSchemaConstRule :: "(jsval, jsval) KeywordRule" where
  "JSONSchemaConstRule =
     \<lparr> rule_keyword = ''const'',
       getEnforcerFor = JSONSchemaConstRule_getEnforcerFor ''const'' \<rparr>"

type_synonym JSONSchemaEnforcer = "(jsval, (jsval, jsval) KeywordErrorLog, jsval) SchemaEnforcer"

definition JSONSchemaAnyValueEnforcer :: JSONSchemaEnforcer where
  "JSONSchemaAnyValueEnforcer =
     \<lparr> validate = (\<lambda>v. \<lparr> errors = [] \<rparr>),
       coerce = Some (\<lambda>v n. (v, n)),
       schema = Bool True \<rparr>"

text \<open>The error of the \<open>false\<close> schema has the member \<open>target\<close> only.\<close>

definition JSONSchemaNoValueEnforcer :: JSONSchemaEnforcer where
  "JSONSchemaNoValueEnforcer =
     \<lparr> validate = (\<lambda>v. \<lparr> errors =
         [\<lparr> error_keyword = None, error_value = Undefined, error_target = v,
            error_priority = None, error_coerce = None \<rparr>] \<rparr>),
       coerce = None,
       schema = Bool False \<rparr>"

record 'a BooleanFork =
  fork_true :: 'a
  fork_false :: 'a

record JSONSchemaEnforcerFactory =
  booleanEnforcers :: "JSONSchemaEnforcer BooleanFork"
  keywordHandler :: "jsval SequentialKeywordEnforcerFactory"

definition JSONSchemaEnforcerFactory :: "host \<Rightarrow> JSONSchemaEnforcerFactory" where
  "JSONSchemaEnforcerFactory h =
     \<lparr> booleanEnforcers =
         \<lparr> fork_true = JSONSchemaAnyValueEnforcer, fork_false = JSONSchemaNoValueEnforcer \<rparr>,
       keywordHandler =
         SequentialKeywordEnforcerFactory
           [JSONSchemaTypeRule_rule (JSONSchemaTypeRule h), JSONSchemaConstRule] \<rparr>"

text \<open>
  \<open>JSONSchemaEnforcerFactory.process\<close>. The result is seen at the type both kinds of
  enforcer share, \<open>SchemaEnforcer\<close>.
\<close>

definition JSONSchemaEnforcerFactory_process ::
  "JSONSchemaEnforcerFactory \<Rightarrow> jsval \<Rightarrow> (jsval, jsval) KeywordEnforcerContext
   \<Rightarrow> js_error + JSONSchemaEnforcer" where
  "JSONSchemaEnforcerFactory_process this sch context =
     (case sch of
        Bool b \<Rightarrow>
          Inr (if b then fork_true (booleanEnforcers this) else fork_false (booleanEnforcers this))
      | _ \<Rightarrow>
          map_sum id SchemaEnforcer.truncate
            (SequentialKeywordEnforcerFactory_process (keywordHandler this) sch context))"

section \<open>Schema options (generic/options.ts, json-schema/options.ts)\<close>

record 'a LabeledValue =
  label :: string
  labeled_value :: 'a

text \<open>
  \<open>SchemaOptionsFactory\<close>: its three collaborators are objects with one method,
  \<open>process\<close>. An array of schemas or of options is a list.
\<close>

record ('s, 'e) SchemaOptionsFactory =
  labelFactory :: "'s \<Rightarrow> string"
  enforcerFactory :: "'s \<Rightarrow> js_error + 'e"
  splitter :: "('s \<Rightarrow> nat \<Rightarrow> 's list \<times> nat) option"

definition SchemaOptionsFactory_process ::
  "('s, 'e) SchemaOptionsFactory \<Rightarrow> 's \<Rightarrow> nat \<Rightarrow> js_error + ('e LabeledValue) list \<times> nat" where
  "SchemaOptionsFactory_process this sch n =
     (case (case splitter this of Some sp \<Rightarrow> sp sch n | None \<Rightarrow> ([sch], n)) of
        (sources, n') \<Rightarrow>
          (case sequence_sum
                  (map (\<lambda>source.
                          (let l = labelFactory this source in
                           case enforcerFactory this source of
                             Inl e \<Rightarrow> Inl e
                           | Inr v \<Rightarrow> Inr \<lparr> label = l, labeled_value = v \<rparr>))
                       sources) of
             Inl e \<Rightarrow> Inl e
           | Inr options \<Rightarrow> Inr (options, n')))"

record KeyedSchemaLabeler =
  label_keywords :: "string list"
  delimiter :: string
  translate :: "(string \<Rightarrow> string) option"

text \<open>The loop of \<open>KeyedSchemaLabeler.process\<close>; \<open>stringify\<close> is \<open>String\<close>.\<close>

fun labelLoop :: "host \<Rightarrow> KeyedSchemaLabeler \<Rightarrow> jsval \<Rightarrow> string list \<Rightarrow> string" where
  "labelLoop h this source [] = ToString h source"
| "labelLoop h this source (k # ks) =
     (if has_property k source then
        (case get_property source k of
           Arr r items \<Rightarrow>
             (let itemNames = map (ToString h) items in
              if length itemNames < 1 then labelLoop h this source ks
              else
                join (delimiter this)
                  (case translate this of
                     Some f \<Rightarrow> map f itemNames
                   | None \<Rightarrow> itemNames))
         | v \<Rightarrow>
             (let text = ToString h v in
              case translate this of Some f \<Rightarrow> f text | None \<Rightarrow> text))
      else labelLoop h this source ks)"

definition KeyedSchemaLabeler_process :: "host \<Rightarrow> KeyedSchemaLabeler \<Rightarrow> jsval \<Rightarrow> string" where
  "KeyedSchemaLabeler_process h this source = labelLoop h this source (label_keywords this)"

definition JSON_SCHEMA_LABEL_PROPERTIES :: "string list" where
  "JSON_SCHEMA_LABEL_PROPERTIES =
     [''title'', ''$id'', ''$ref'', ''description'', ''$comment'', ''const'', ''format'', ''type'']"

text \<open>
  The two schema constants of the module. Their objects are created when the module is
  loaded and take the first references.
\<close>

definition ANY_VALUE_JSON_SCHEMA :: jsval where
  "ANY_VALUE_JSON_SCHEMA =
     Obj 0
       [(''title'', Str ''ANY_VALUE_JSON_SCHEMA''),
        (''oneOf'', Arr 1
           [Obj 2 [(''type'', Str ''null'')],
            Obj 3 [(''type'', Str ''boolean'')],
            Obj 4 [(''type'', Str ''string'')],
            Obj 5 [(''type'', Str ''number'')],
            Obj 6 [(''type'', Str ''integer'')],
            Obj 7 [(''type'', Str ''array''), (''items'', Bool True)],
            Obj 8 [(''type'', Str ''object''), (''additionalProperties'', Bool True)]])]"

definition NO_VALUE_JSON_SCHEMA :: jsval where
  "NO_VALUE_JSON_SCHEMA =
     Obj 9
       [(''title'', Str ''NO_VALUE_JSON_SCHEMA''),
        (''allOf'', Arr 10
           [Obj 11 [(''type'', Str ''boolean'')],
            Obj 12 [(''type'', Str ''string'')]])]"

record JSONSchemaLabeler =
  booleanLabels :: "string BooleanFork"
  keyHandler :: KeyedSchemaLabeler

definition JSONSchemaLabeler :: JSONSchemaLabeler where
  "JSONSchemaLabeler =
     \<lparr> booleanLabels =
         \<lparr> fork_true = string_of (get_property ANY_VALUE_JSON_SCHEMA ''title''),
           fork_false = string_of (get_property NO_VALUE_JSON_SCHEMA ''title'') \<rparr>,
       keyHandler =
         \<lparr> label_keywords = JSON_SCHEMA_LABEL_PROPERTIES, delimiter = ''/'', translate = None \<rparr> \<rparr>"

definition JSONSchemaLabeler_process :: "host \<Rightarrow> JSONSchemaLabeler \<Rightarrow> jsval \<Rightarrow> string" where
  "JSONSchemaLabeler_process h this source =
     (case source of
        Bool b \<Rightarrow>
          (let l = (if b then fork_true (booleanLabels this) else fork_false (booleanLabels this))
           in case translate (keyHandler this) of Some f \<Rightarrow> f l | None \<Rightarrow> l)
      | _ \<Rightarrow> KeyedSchemaLabeler_process h (keyHandler this) source)"

record JSONSchemaSplitter =
  booleanSchemas :: "(jsval list) BooleanFork"
  subschemaKeys :: "string list"
  enumKey :: string

fun elements :: "jsval \<Rightarrow> jsval list" where
  "elements (Arr r xs) = xs"
| "elements _ = []"

text \<open>
  The default splitter: the schemas for \<open>true\<close> are a structured clone of the
  \<open>oneOf\<close> array of \<open>ANY_VALUE_JSON_SCHEMA\<close>.
\<close>

definition JSONSchemaSplitter :: "nat \<Rightarrow> JSONSchemaSplitter \<times> nat" where
  "JSONSchemaSplitter n =
     (case structuredClone (get_property ANY_VALUE_JSON_SCHEMA ''oneOf'') n of
        (copy, n') \<Rightarrow>
          (\<lparr> booleanSchemas =
               \<lparr> fork_true = elements copy, fork_false = [NO_VALUE_JSON_SCHEMA] \<rparr>,
             subschemaKeys = [''oneOf'', ''anyOf''],
             enumKey = ''enum'' \<rparr>, n'))"

text \<open>\<open>items.map(item => ({ [key]: item }))\<close>: one new object for each item.\<close>

fun wrapEach :: "string \<Rightarrow> jsval list \<Rightarrow> nat \<Rightarrow> jsval list \<times> nat" where
  "wrapEach key [] n = ([], n)"
| "wrapEach key (item # items) n =
     (case wrapEach key items (Suc n) of
        (rest, n') \<Rightarrow> (Obj n [(key, item)] # rest, n'))"

definition is_flag_or_object :: "jsval \<Rightarrow> bool" where
  "is_flag_or_object item =
     (typeof item = ''boolean''
      \<or> (typeof item = ''object'' \<and> \<not> is_nullish item \<and> \<not> isArray item))"

text \<open>The loop of \<open>JSONSchemaSplitter.process\<close> over the subschema keys.\<close>

fun subschemaLoop :: "jsval \<Rightarrow> string list \<Rightarrow> (jsval list) option" where
  "subschemaLoop source [] = None"
| "subschemaLoop source (k # ks) =
     (case get_property source k of
        Arr r keyValue \<Rightarrow> Some (filter is_flag_or_object keyValue)
      | _ \<Rightarrow> subschemaLoop source ks)"

definition splitObject :: "JSONSchemaSplitter \<Rightarrow> jsval \<Rightarrow> nat \<Rightarrow> jsval list \<times> nat" where
  "splitObject this source n =
     (case subschemaLoop source (subschemaKeys this) of
        Some filteredItems \<Rightarrow> (filteredItems, n)
      | None \<Rightarrow>
          (case get_property source ''type'' of
             Arr r typeValue \<Rightarrow> wrapEach ''type'' (filter is_string typeValue) n
           | _ \<Rightarrow> ([source], n)))"

definition JSONSchemaSplitter_process ::
  "JSONSchemaSplitter \<Rightarrow> jsval \<Rightarrow> nat \<Rightarrow> jsval list \<times> nat" where
  "JSONSchemaSplitter_process this source n =
     (case source of
        Bool b \<Rightarrow>
          (if b then fork_true (booleanSchemas this) else fork_false (booleanSchemas this), n)
      | _ \<Rightarrow>
          (if enumKey this \<noteq> []
           then (case get_property source (enumKey this) of
                   Arr r enumValues \<Rightarrow> wrapEach ''const'' enumValues n
                 | _ \<Rightarrow> splitObject this source n)
           else splitObject this source n))"

text \<open>\<open>JSONSchemaOptionsFactory\<close>, with its default enforcer factory.\<close>

definition JSONSchemaOptionsFactory ::
  "host \<Rightarrow> nat \<Rightarrow> (jsval, JSONSchemaEnforcer) SchemaOptionsFactory \<times> nat" where
  "JSONSchemaOptionsFactory h n =
     (case JSONSchemaSplitter n of
        (sp, n') \<Rightarrow>
          (\<lparr> labelFactory = JSONSchemaLabeler_process h JSONSchemaLabeler,
             enforcerFactory =
               (\<lambda>sch. JSONSchemaEnforcerFactory_process (JSONSchemaEnforcerFactory h) sch Map.empty),
             splitter = Some (JSONSchemaSplitter_process sp) \<rparr>, n'))"

section \<open>Notions used in the statements\<close>

text \<open>The constraints the rules of a factory give for a schema, in the order of the rules.\<close>

definition ruleEnforcers ::
  "(('a, 'a) KeywordRule) list \<Rightarrow> jsval \<Rightarrow> ('a, 'a) KeywordEnforcerContext
   \<Rightarrow> (('a, 'a) KeywordConstraint) list" where
  "ruleEnforcers rs sch context =
     concat (map (\<lambda>rule. case getEnforcerFor rule sch context of
                            Inr (Some e) \<Rightarrow> [e] | _ \<Rightarrow> []) rs)"

text \<open>An error with a given keyword and priority, for the examples below.\<close>

definition sample_error :: "string \<Rightarrow> jsnum option \<Rightarrow> (jsval, jsval) KeywordError" where
  "sample_error k p =
     \<lparr> error_keyword = Some k, error_value = Undefined, error_target = Undefined,
       error_priority = p, error_coerce = None \<rparr>"

text \<open>A rule that always applies, with a constraint that reports a fixed error log.\<close>

definition constant_rule ::
  "string \<Rightarrow> (jsval, jsval) KeywordErrorLog \<Rightarrow> (jsval, jsval) KeywordRule" where
  "constant_rule k result =
     \<lparr> rule_keyword = k,
       getEnforcerFor = (\<lambda>sch context. Inr (Some \<lparr> validate = (\<lambda>v. result), coerce = None \<rparr>)) \<rparr>"

text \<open>
  The priority of an error as a rational: a missing priority counts as 0. The second
  predicate holds of an error whose priority is missing or finite.
\<close>

definition priority_value :: "('a, 'b) KeywordError \<Rightarrow> rat" where
  "priority_value e = (case error_priority e of Some (Fin q) \<Rightarrow> q | _ \<Rightarrow> 0)"

definition finite_priority :: "('a, 'b) KeywordError \<Rightarrow> bool" where
  "finite_priority e = (case error_priority e of Some (Fin q) \<Rightarrow> True | None \<Rightarrow> True | _ \<Rightarrow> False)"

text \<open>
  The rating as the specification words it: 1 for no error, and otherwise the negative
  of the highest priority among the errors.
\<close>

definition claimed_rateValidity :: "('a, 'b) KeywordErrorLog \<Rightarrow> jsnum" where
  "claimed_rateValidity v =
     (if errors v = [] then Fin 1 else Fin (- Max (set (map priority_value (errors v)))))"

text \<open>The keys of the table of type rules.\<close>

definition type_names :: "string list" where
  "type_names = [''any'', ''array'', ''boolean'', ''integer'', ''null'', ''number'', ''object'', ''string'']"





section \<open>Verification\<close>

subsection \<open>Merged validation\<close>

lemma merge_all_valid:
  "list_all (\<lambda>s. isValid P (s v)) steps \<Longrightarrow> mergeValidateSteps steps P v = getValid P"
  by (induction steps) simp_all

lemma merge_first_invalid:
  "list_all (\<lambda>s. isValid P (s v)) pre \<Longrightarrow> \<not> isValid P (s v)
   \<Longrightarrow> mergeValidateSteps (pre @ s # post) P v = s v"
  by (induction pre) simp_all

lemma processLoop_queue:
  "processLoop rs sch context (enfs, vq, cq) = Inr (enfs', vq', cq')
   \<Longrightarrow> vq' = vq @ map validate (ruleEnforcers rs sch context)"
proof (induction rs arbitrary: enfs vq cq)
  case Nil
  then show ?case by (simp add: ruleEnforcers_def)
next
  case (Cons rule rs)
  show ?case
  proof (cases "getEnforcerFor rule sch context")
    case (Inl e)
    with Cons.prems show ?thesis by simp
  next
    case (Inr r)
    show ?thesis
    proof (cases r)
      case None
      with Inr Cons.prems have "processLoop rs sch context (enfs, vq, cq) = Inr (enfs', vq', cq')"
        by simp
      from Cons.IH [OF this] show ?thesis using Inr None by (simp add: ruleEnforcers_def)
    next
      case (Some c)
      with Inr Cons.prems obtain enfs2 cq2 where
        "processLoop rs sch context (enfs2, vq @ [validate c], cq2) = Inr (enfs', vq', cq')"
        by simp
      from Cons.IH [OF this] show ?thesis using Inr Some by (simp add: ruleEnforcers_def)
    qed
  qed
qed

lemma process_validate:
  assumes "SequentialKeywordEnforcerFactory_process F sch context = Inr e"
  shows "validate e =
    mergeValidateSteps (map validate (ruleEnforcers (rules F) sch context)) (validationParser F)"
proof -
  from assms obtain enfs vq cq where
    L: "processLoop (rules F) sch context (Map.empty, [], []) = Inr (enfs, vq, cq)"
    and E: "validate e = mergeValidateSteps vq (validationParser F)"
    by (auto simp: SequentialKeywordEnforcerFactory_process_def split: sum.splits)
  from processLoop_queue [OF L] E show ?thesis by simp
qed

text \<open>
  Claim C7. The function that \<open>mergeValidateSteps\<close> builds returns the parser's valid value
  when the parser accepts the result of every step, and otherwise the result of the
  first step whose result the parser rejects, whatever the steps after it are. The
  \<open>validate\<close> of the enforcer a \<open>SequentialKeywordEnforcerFactory\<close> builds is this
  function over the constraints of its rules in the order of the rules: it returns the
  empty error log when every constraint reports no error, and otherwise the error log
  of the first constraint, in rule order, that reports one.
\<close>

theorem merged_validation_first_failure:
  "(list_all (\<lambda>s. isValid P (s v)) steps \<longrightarrow> mergeValidateSteps steps P v = getValid P)
   \<and> (list_all (\<lambda>s. isValid P (s v)) pre \<and> \<not> isValid P (s v)
        \<longrightarrow> mergeValidateSteps (pre @ s # post) P v = s v)
   \<and> (SequentialKeywordEnforcerFactory_process (SequentialKeywordEnforcerFactory rs) sch context
          = Inr e
        \<longrightarrow> (list_all (\<lambda>c. errors (validate c w) = []) (ruleEnforcers rs sch context)
               \<longrightarrow> validate e w = \<lparr> errors = [] \<rparr>)
          \<and> (ruleEnforcers rs sch context = before @ c # after
               \<and> list_all (\<lambda>c'. errors (validate c' w) = []) before
               \<and> errors (validate c w) \<noteq> []
               \<longrightarrow> validate e w = validate c w))"
proof (intro conjI impI)
  assume "list_all (\<lambda>s. isValid P (s v)) steps"
  then show "mergeValidateSteps steps P v = getValid P" by (rule merge_all_valid)
next
  assume "list_all (\<lambda>s. isValid P (s v)) pre \<and> \<not> isValid P (s v)"
  then show "mergeValidateSteps (pre @ s # post) P v = s v"
    by (simp add: merge_first_invalid)
next
  assume "SequentialKeywordEnforcerFactory_process (SequentialKeywordEnforcerFactory rs) sch context
    = Inr e"
  then have V: "validate e =
      mergeValidateSteps (map validate (ruleEnforcers rs sch context)) ErrorLogValidationParser"
    using process_validate [of "SequentialKeywordEnforcerFactory rs" sch "context" e]
    by (simp add: SequentialKeywordEnforcerFactory_def)
  {
    assume "list_all (\<lambda>c. errors (validate c w) = []) (ruleEnforcers rs sch context)"
    then have "list_all (\<lambda>s. isValid ErrorLogValidationParser (s w))
        (map validate (ruleEnforcers rs sch context))"
      by (simp add: list_all_iff ErrorLogValidationParser_def)
    from merge_all_valid [OF this] show "validate e w = \<lparr> errors = [] \<rparr>"
      by (simp add: V ErrorLogValidationParser_def)
  }
  {
    assume A: "ruleEnforcers rs sch context = before @ c # after
      \<and> list_all (\<lambda>c'. errors (validate c' w) = []) before
      \<and> errors (validate c w) \<noteq> []"
    then have "list_all (\<lambda>s. isValid ErrorLogValidationParser (s w)) (map validate before)"
      and "\<not> isValid ErrorLogValidationParser (validate c w)"
      by (simp_all add: list_all_iff ErrorLogValidationParser_def)
    then have "mergeValidateSteps (map validate before @ validate c # map validate after)
        ErrorLogValidationParser w = validate c w"
      by (rule merge_first_invalid [where s = "validate c"])
    with A show "validate e w = validate c w" by (simp add: V)
  }
qed

theorem merged_validation_first_failure_witness:
  "mergeValidateSteps [\<lambda>n. True, \<lambda>n. 0 < n] BooleanValidationParser (3::nat) = True
   \<and> mergeValidateSteps ([\<lambda>n. True] @ (\<lambda>n. n < 2) # [\<lambda>n. False]) BooleanValidationParser (3::nat)
       = False
   \<and> (case SequentialKeywordEnforcerFactory_process
          (SequentialKeywordEnforcerFactory
             [constant_rule ''a'' \<lparr> errors = [] \<rparr>,
              constant_rule ''b'' \<lparr> errors = [sample_error ''b'' None] \<rparr>,
              constant_rule ''c'' \<lparr> errors = [sample_error ''c'' None] \<rparr>]) Null Map.empty of
         Inr e \<Rightarrow> validate e Null = \<lparr> errors = [sample_error ''b'' None] \<rparr>
       | Inl _ \<Rightarrow> False)"
proof -
  let ?rs = "[constant_rule ''a'' \<lparr> errors = [] \<rparr>,
              constant_rule ''b'' \<lparr> errors = [sample_error ''b'' None] \<rparr>,
              constant_rule ''c'' \<lparr> errors = [sample_error ''c'' None] \<rparr>]"
  let ?c = "\<lambda>result. \<lparr> validate = (\<lambda>v::jsval. result), coerce = (None :: ((jsval, jsval) Coerce) option) \<rparr>"
  let ?r = "SequentialKeywordEnforcerFactory_process (SequentialKeywordEnforcerFactory ?rs) Null Map.empty"
  obtain e where E: "?r = Inr e"
    by (simp add: SequentialKeywordEnforcerFactory_process_def SequentialKeywordEnforcerFactory_def
        constant_rule_def)
  have R: "ruleEnforcers ?rs Null Map.empty =
      [?c \<lparr> errors = [] \<rparr>] @ ?c \<lparr> errors = [sample_error ''b'' None] \<rparr> # [?c \<lparr> errors = [sample_error ''c'' None] \<rparr>]"
    by (simp add: ruleEnforcers_def constant_rule_def)
  from merged_validation_first_failure
    [of BooleanValidationParser "3::nat" "[\<lambda>n. True, \<lambda>n. 0 < n]" "[\<lambda>n. True]" "\<lambda>n. n < 2"
        "[\<lambda>n. False]" ?rs Null Map.empty e Null "[?c \<lparr> errors = [] \<rparr>]"
        "?c \<lparr> errors = [sample_error ''b'' None] \<rparr>" "[?c \<lparr> errors = [sample_error ''c'' None] \<rparr>]"]
    E R
  show ?thesis by (simp add: BooleanValidationParser_def)
qed

subsection \<open>Boolean schemas\<close>

text \<open>
  Claim C10. For the schema \<open>false\<close>, \<open>process\<close> returns the enforcer that has no
  \<open>coerce\<close> member. For the schema \<open>true\<close>, it returns the enforcer whose \<open>coerce\<close>
  returns its argument and whose \<open>validate\<close> returns the empty error log for every value.
\<close>

theorem boolean_schema_enforcers:
  "JSONSchemaEnforcerFactory_process (JSONSchemaEnforcerFactory h) (Bool False) ctx
     = Inr JSONSchemaNoValueEnforcer
   \<and> coerce JSONSchemaNoValueEnforcer = None
   \<and> JSONSchemaEnforcerFactory_process (JSONSchemaEnforcerFactory h) (Bool True) ctx
     = Inr JSONSchemaAnyValueEnforcer
   \<and> (\<exists>c. coerce JSONSchemaAnyValueEnforcer = Some c \<and> (\<forall>v n. c v n = (v, n)))
   \<and> (\<forall>v. validate JSONSchemaAnyValueEnforcer v = \<lparr> errors = [] \<rparr>)"
  by (simp add: JSONSchemaEnforcerFactory_process_def JSONSchemaEnforcerFactory_def
      JSONSchemaNoValueEnforcer_def JSONSchemaAnyValueEnforcer_def)

subsection \<open>Rating an error log\<close>

text \<open>
  For a log whose only error has priority \<open>-5\<close> the code returns 0, where the
  negative of the highest priority is 5.
\<close>

theorem rateValidity_negative_priority_counterexample:
  "KeywordErrorLog_rateValidity \<lparr> errors = [sample_error ''k'' (Some (Fin (- 5)))] \<rparr> = Fin 0
   \<and> claimed_rateValidity \<lparr> errors = [sample_error ''k'' (Some (Fin (- 5)))] \<rparr> = Fin 5"
  by (simp add: KeywordErrorLog_rateValidity_def claimed_rateValidity_def sample_error_def
      priority_value_def num_gt_def)

lemma maxErrorPriority_fold:
  "0 \<le> m \<Longrightarrow> list_all finite_priority es
   \<Longrightarrow> maxErrorPriority es (Fin m) = Fin (fold max (map priority_value es) m)"
proof (induction es arbitrary: m)
  case Nil
  then show ?case by simp
next
  case (Cons e es)
  from Cons.prems have F: "finite_priority e" and R: "list_all finite_priority es" by simp_all
  show ?case
  proof (cases "error_priority e")
    case None
    then have "priority_value e = 0" by (simp add: priority_value_def)
    with None Cons.IH [OF Cons.prems(1) R] Cons.prems(1) show ?thesis
      by (simp add: max_def)
  next
    case (Some p)
    with F obtain q where Q: "p = Fin q" by (cases p) (simp_all add: finite_priority_def)
    have V: "priority_value e = q" using Some Q by (simp add: priority_value_def)
    show ?thesis
    proof (cases "m < q")
      case True
      then have "0 \<le> q" using Cons.prems(1) by simp
      from Cons.IH [OF this R] True Some Q V show ?thesis
        by (simp add: num_gt_def max_def)
    next
      case False
      from Cons.IH [OF Cons.prems(1) R] False Some Q V show ?thesis
        by (simp add: num_gt_def max_def)
    qed
  qed
qed

text \<open>
  Claim C2, amended. \<open>rateValidity\<close> returns 1 for a log with no errors. For a log with
  at least one error, whose priorities are finite or missing, it returns the negative of
  the highest value among 0 and the priorities of the errors: a priority counts only when
  it is above 0, and the rating of a log with errors is never above 0.
\<close>

theorem rateValidity_floor_zero:
  "(errors v = [] \<longrightarrow> KeywordErrorLog_rateValidity v = Fin 1)
   \<and> (errors v \<noteq> [] \<and> list_all finite_priority (errors v)
        \<longrightarrow> KeywordErrorLog_rateValidity v
             = Fin (- Max (insert 0 (set (map priority_value (errors v))))))"
proof (intro conjI impI)
  assume "errors v = []"
  then show "KeywordErrorLog_rateValidity v = Fin 1"
    by (simp add: KeywordErrorLog_rateValidity_def)
next
  assume A: "errors v \<noteq> [] \<and> list_all finite_priority (errors v)"
  have "Max (insert 0 (set (map priority_value (errors v))))
      = fold max (map priority_value (errors v)) 0"
    using Max.set_eq_fold [of 0 "map priority_value (errors v)"] by simp
  with A maxErrorPriority_fold [of 0 "errors v"]
  show "KeywordErrorLog_rateValidity v
      = Fin (- Max (insert 0 (set (map priority_value (errors v)))))"
    by (simp add: KeywordErrorLog_rateValidity_def)
qed

theorem rateValidity_floor_zero_witness:
  "KeywordErrorLog_rateValidity \<lparr> errors = ([] :: ((jsval, jsval) KeywordError) list) \<rparr> = Fin 1
   \<and> KeywordErrorLog_rateValidity
        \<lparr> errors = [sample_error ''a'' (Some (Fin 3)), sample_error ''b'' (Some (Fin (- 2))),
                     sample_error ''c'' None] \<rparr> = Fin (- 3)
   \<and> KeywordErrorLog_rateValidity \<lparr> errors = [sample_error ''k'' (Some (Fin (- 5)))] \<rparr> = Fin 0"
proof -
  let ?l = "\<lparr> errors = [sample_error ''a'' (Some (Fin 3)), sample_error ''b'' (Some (Fin (- 2))),
                     sample_error ''c'' None] \<rparr>"
  let ?m = "\<lparr> errors = [sample_error ''k'' (Some (Fin (- 5)))] \<rparr>"
  have 1: "errors ?l \<noteq> [] \<and> list_all finite_priority (errors ?l)"
    by (simp add: finite_priority_def sample_error_def)
  have 2: "errors ?m \<noteq> [] \<and> list_all finite_priority (errors ?m)"
    by (simp add: finite_priority_def sample_error_def)
  from rateValidity_floor_zero [of "\<lparr> errors = ([] :: ((jsval, jsval) KeywordError) list) \<rparr>"]
    rateValidity_floor_zero [of ?l] rateValidity_floor_zero [of ?m] 1 2
  show ?thesis by (simp add: priority_value_def sample_error_def)
qed

subsection \<open>Forks\<close>

text \<open>
  When the priorities are finite or missing, \<open>getHighestPriorityError\<close> returns the last
  error of a list. A fork returns the result of the first branch that reports no error.
\<close>

lemma finite_priority_gt:
  "finite_priority e \<Longrightarrow> num_gt (priority_or_0 e) NegInf"
proof (cases "error_priority e")
  case None
  then show ?thesis by (simp add: priority_or_0_def num_gt_def)
next
  case (Some p)
  assume "finite_priority e"
  with Some obtain q where "p = Fin q" by (cases p) (simp_all add: finite_priority_def)
  with Some show ?thesis by (simp add: priority_or_0_def num_gt_def)
qed

lemma highestPriorityLoop_last:
  "list_all finite_priority es \<Longrightarrow> es \<noteq> [] \<Longrightarrow> highestPriorityLoop es m = Some (last es)"
proof (induction es arbitrary: m)
  case Nil
  then show ?case by simp
next
  case (Cons e es)
  from Cons.prems have "finite_priority e" by simp
  then have S: "highestPriorityLoop (e # es) m = highestPriorityLoop es (Some e)"
    by (simp add: finite_priority_gt)
  show ?case
  proof (cases "es = []")
    case True
    with S show ?thesis by simp
  next
    case False
    with Cons.IH [of "Some e"] Cons.prems S show ?thesis by simp
  qed
qed

lemma getHighestPriorityError_last:
  "list_all finite_priority es \<Longrightarrow> es \<noteq> [] \<Longrightarrow> getHighestPriorityError es = Some (last es)"
  by (simp add: getHighestPriorityError_def highestPriorityLoop_last)

lemma forkValidateLoop_first_valid:
  "list_all (\<lambda>b. errors (validate b t) \<noteq> []) pre \<Longrightarrow> errors (validate b t) = []
   \<Longrightarrow> forkValidateLoop (pre @ b # post) t result lowest = validate b t"
  by (induction pre arbitrary: result lowest) (simp_all add: Let_def)

lemma fork_first_valid:
  "list_all (\<lambda>b. errors (validate b t) \<noteq> []) pre \<Longrightarrow> errors (validate b t) = []
   \<Longrightarrow> KeywordEnforcerFork_validate \<lparr> branches = pre @ b # post, defaultCoerce = d \<rparr> t
       = validate b t"
  by (simp add: KeywordEnforcerFork_validate_def forkValidateLoop_first_valid)

text \<open>
  Claim C1. \<open>getHighestPriorityError\<close> compares every priority with a bound that stays
  at negative infinity, so it returns the last error of the list, here the one of
  priority 1 and not the one of priority 5. A fork of a branch that reports priorities
  5 and 1 and a branch that reports priority 3 therefore returns the log of the first
  branch, whose highest priority is 5, and not the log of the second, whose highest
  priority, 3, is the lowest.
\<close>

theorem fork_ranks_branch_by_last_error:
  "getHighestPriorityError [sample_error ''a'' (Some (Fin 5)), sample_error ''b'' (Some (Fin 1))]
     = Some (sample_error ''b'' (Some (Fin 1)))
   \<and> KeywordEnforcerFork_validate
       \<lparr> branches =
           [\<lparr> validate = (\<lambda>v. \<lparr> errors = [sample_error ''a'' (Some (Fin 5)),
                                          sample_error ''b'' (Some (Fin 1))] \<rparr>), coerce = None \<rparr>,
            \<lparr> validate = (\<lambda>v. \<lparr> errors = [sample_error ''c'' (Some (Fin 3))] \<rparr>), coerce = None \<rparr>],
         defaultCoerce = echoValue \<rparr> target
     = \<lparr> errors = [sample_error ''a'' (Some (Fin 5)), sample_error ''b'' (Some (Fin 1))] \<rparr>"
  by (simp add: KeywordEnforcerFork_validate_def getHighestPriorityError_def priority_or_0_def
      sample_error_def num_gt_def)

subsection \<open>The const rule\<close>

text \<open>Two values are equivalent only if they are strictly equal.\<close>

lemma isEquivalentTo_strict: "isEquivalentTo a b \<Longrightarrow> strict_eq a b"
  by (subst (asm) isEquivalentTo.simps) (auto split: if_splits)

lemma isEquivalentTo_fresh_copy:
  "isEquivalentTo (Obj 12 [(''x'', Num (Fin 1))]) (Obj 11 [(''x'', Num (Fin 1))]) = False"
  by (simp add: isEquivalentTo.simps)

text \<open>
  Claim C3. For a schema whose constant is the object \<open>{x: 1}\<close>, another object
  \<open>{x: 1}\<close> is not accepted: \<open>isEquivalentTo\<close> finds every key equivalent and
  then returns \<open>a === b\<close>, which is false of two objects. The enforcer of the
  \<open>const\<close> rule reports one error, of keyword \<open>const\<close> and priority 150.
\<close>

theorem const_rejects_equal_object:
  "isEquivalentTo (Obj 12 [(''x'', Num (Fin 1))]) (Obj 11 [(''x'', Num (Fin 1))]) = False
   \<and> (case JSONSchemaConstRule_getEnforcerFor ''const''
            (Obj 10 [(''const'', Obj 11 [(''x'', Num (Fin 1))])]) ctx of
         Inr (Some c) \<Rightarrow>
           map (\<lambda>e. (error_keyword e, error_priority e))
               (errors (validate c (Obj 12 [(''x'', Num (Fin 1))])))
             = [(Some ''const'', Some (Fin 150))]
       | _ \<Rightarrow> False)"
  by (simp add: isEquivalentTo_fresh_copy JSONSchemaConstRule_getEnforcerFor_def
      KeywordValueEnforcer_constraint_def KeywordValueEnforcer_validate_def Let_def)

subsection \<open>Type arrays without a known type\<close>

lemma type_table_keys: "map fst (createJSONSchemaTypeRules h k p) = type_names"
  by (simp add: createJSONSchemaTypeRules_def type_names_def)

lemma table_member_Absent:
  "table_member (createJSONSchemaTypeRules h k p) name = Absent
   \<longleftrightarrow> name \<notin> set type_names \<and> name \<notin> set object_prototype_keys"
proof -
  have "map_of (createJSONSchemaTypeRules h k p) name = None \<longleftrightarrow> name \<notin> set type_names"
    using type_table_keys [of h k p] by (metis map_of_eq_None_iff set_map)
  then show ?thesis
    by (cases "map_of (createJSONSchemaTypeRules h k p) name") (auto simp: table_member_def)
qed

lemma processLoop_two:
  "getEnforcerFor r1 sch ctx = Inr x1 \<Longrightarrow> getEnforcerFor r2 sch ctx = Inr x2
   \<Longrightarrow> \<exists>enfs cq. processLoop [r1, r2] sch ctx (Map.empty, [], [])
        = Inr (enfs, map validate (ruleEnforcers [r1, r2] sch ctx), cq)"
  by (cases x1; cases x2) (simp_all add: ruleEnforcers_def)

lemma const_rule_returns:
  "getEnforcerFor JSONSchemaConstRule sch ctx = Inr None
   \<or> (\<exists>c. getEnforcerFor JSONSchemaConstRule sch ctx = Inr (Some c))"
  by (simp add: JSONSchemaConstRule_def JSONSchemaConstRule_getEnforcerFor_def Let_def)

lemma truncate_validate: "validate (SchemaEnforcer.truncate e) = validate e"
  by (simp add: SchemaEnforcer.truncate_def)

lemma object_schema_process:
  assumes T: "getEnforcerFor (JSONSchemaTypeRule_rule (JSONSchemaTypeRule h)) sch ctx = Inr x1"
    and B: "\<forall>b. sch \<noteq> Bool b"
  shows "\<exists>e. JSONSchemaEnforcerFactory_process (JSONSchemaEnforcerFactory h) sch ctx = Inr e
    \<and> validate e = mergeValidateSteps
        (map validate (ruleEnforcers [JSONSchemaTypeRule_rule (JSONSchemaTypeRule h), JSONSchemaConstRule] sch ctx))
        ErrorLogValidationParser"
proof -
  let ?rs = "[JSONSchemaTypeRule_rule (JSONSchemaTypeRule h), JSONSchemaConstRule]"
  let ?F = "SequentialKeywordEnforcerFactory ?rs"
  from const_rule_returns [of sch ctx] obtain x2 where
    C: "getEnforcerFor JSONSchemaConstRule sch ctx = Inr x2" by blast
  from processLoop_two [OF T C] obtain enfs cq where
    L: "processLoop ?rs sch ctx (Map.empty, [], []) = Inr (enfs, map validate (ruleEnforcers ?rs sch ctx), cq)"
    by blast
  then obtain e where E: "SequentialKeywordEnforcerFactory_process ?F sch ctx = Inr e"
    by (simp add: SequentialKeywordEnforcerFactory_process_def SequentialKeywordEnforcerFactory_def)
  from process_validate [OF E]
  have V: "validate e = mergeValidateSteps (map validate (ruleEnforcers ?rs sch ctx)) ErrorLogValidationParser"
    by (simp add: SequentialKeywordEnforcerFactory_def)
  have "JSONSchemaEnforcerFactory_process (JSONSchemaEnforcerFactory h) sch ctx
      = Inr (SchemaEnforcer.truncate e)"
  proof (cases sch)
    case (Bool b)
    with B show ?thesis by blast
  qed (use E in \<open>simp_all add: JSONSchemaEnforcerFactory_process_def JSONSchemaEnforcerFactory_def\<close>)
  with V show ?thesis by (simp add: truncate_validate)
qed

lemma type_rule_no_names:
  assumes A: "get_property sch ''type'' = Arr r items"
    and N: "list_all (\<lambda>x. \<not> is_string x \<or> (string_of x \<notin> set type_names \<and> string_of x \<notin> set object_prototype_keys)) items"
  shows "getEnforcerFor (JSONSchemaTypeRule_rule (JSONSchemaTypeRule h)) sch ctx
    = Inr (Some (KeywordEnforcerFork_constraint \<lparr> branches = [], defaultCoerce = echoValue \<rparr>))"
proof -
  have "filter is_present (map (table_member (createJSONSchemaTypeRules h ''type'' None))
      (map string_of (filter is_string items))) = []"
  proof -
    have "\<not> is_present (table_member (createJSONSchemaTypeRules h ''type'' None) (string_of x))"
      if "x \<in> set items" "is_string x" for x
    proof -
      from N that have "string_of x \<notin> set type_names \<and> string_of x \<notin> set object_prototype_keys"
        by (auto simp: list_all_iff)
      then have "table_member (createJSONSchemaTypeRules h ''type'' None) (string_of x) = Absent"
        by (simp add: table_member_Absent)
      then show ?thesis by simp
    qed
    then show ?thesis by (simp add: filter_empty_conv)
  qed
  then show ?thesis
    using A by (simp add: JSONSchemaTypeRule_rule_def JSONSchemaTypeRule_def
        JSONSchemaTypeRule_getEnforcerFor_def)
qed

lemma empty_fork_valid:
  "validate (KeywordEnforcerFork_constraint \<lparr> branches = [], defaultCoerce = d \<rparr>) v = \<lparr> errors = [] \<rparr>"
  by (simp add: KeywordEnforcerFork_constraint_def KeywordEnforcerFork_validate_def)

text \<open>
  Claim C9, amended. Let the \<open>type\<close> of a schema object be an array in which no string
  is one of the eight type names or the name of a member every object inherits, and let
  the schema have no \<open>const\<close>. Then \<open>process\<close> returns an enforcer, and its
  \<open>validate\<close> returns the empty error log for every value: the fork has no branch.
\<close>

theorem unrecognized_types_accept_all:
  assumes "get_property sch ''type'' = Arr r items"
    and "list_all (\<lambda>x. \<not> is_string x \<or> (string_of x \<notin> set type_names \<and> string_of x \<notin> set object_prototype_keys)) items"
    and "get_property sch ''const'' = Undefined"
  shows "\<exists>e. JSONSchemaEnforcerFactory_process (JSONSchemaEnforcerFactory h) sch ctx = Inr e
    \<and> (\<forall>v. validate e v = \<lparr> errors = [] \<rparr>)"
proof -
  let ?t = "JSONSchemaTypeRule_rule (JSONSchemaTypeRule h)"
  have T: "getEnforcerFor ?t sch ctx
    = Inr (Some (KeywordEnforcerFork_constraint \<lparr> branches = [], defaultCoerce = echoValue \<rparr>))"
    using assms(1,2) by (rule type_rule_no_names)
  have C: "getEnforcerFor JSONSchemaConstRule sch ctx = Inr None"
    using assms(3) by (simp add: JSONSchemaConstRule_def JSONSchemaConstRule_getEnforcerFor_def)
  have B: "\<forall>b. sch \<noteq> Bool b" using assms(1) by auto
  from object_schema_process [OF T B] obtain e where
    E: "JSONSchemaEnforcerFactory_process (JSONSchemaEnforcerFactory h) sch ctx = Inr e"
    and V: "validate e = mergeValidateSteps
        (map validate (ruleEnforcers [?t, JSONSchemaConstRule] sch ctx)) ErrorLogValidationParser"
    by blast
  have "ruleEnforcers [?t, JSONSchemaConstRule] sch ctx
    = [KeywordEnforcerFork_constraint \<lparr> branches = [], defaultCoerce = echoValue \<rparr>]"
    using T C by (simp add: ruleEnforcers_def)
  with V have "validate e v = \<lparr> errors = [] \<rparr>" for v
    by (simp add: empty_fork_valid ErrorLogValidationParser_def)
  with E show ?thesis by blast
qed

text \<open>
  With a \<open>const\<close> beside the empty \<open>type\<close> array the enforcer does reject values: for
  the schema \<open>{type: [], const: 1}\<close> the value 2 gets the error of the \<open>const\<close> rule.
\<close>

theorem empty_type_with_const_counterexample:
  "\<forall>h. (case JSONSchemaEnforcerFactory_process (JSONSchemaEnforcerFactory h)
            (Obj 10 [(''type'', Arr 11 []), (''const'', Num (Fin 1))]) Map.empty of
          Inr e \<Rightarrow> map (\<lambda>x. (error_keyword x, error_priority x)) (errors (validate e (Num (Fin 2))))
                    = [(Some ''const'', Some (Fin 150))]
        | Inl _ \<Rightarrow> False)"
proof
  fix h
  let ?sch = "Obj 10 [(''type'', Arr 11 []), (''const'', Num (Fin 1))]"
  let ?t = "JSONSchemaTypeRule_rule (JSONSchemaTypeRule h)"
  let ?c = "KeywordValueEnforcer_constraint
             \<lparr> keyword = ''const'', keyword_value = Num (Fin 1),
               check = (\<lambda>target. isEquivalentTo target (Num (Fin 1))),
               keyword_coerce = Some (\<lambda>target. structuredClone (Num (Fin 1))),
               priority = Fin 150 \<rparr>"
  have T: "getEnforcerFor ?t ?sch Map.empty
    = Inr (Some (KeywordEnforcerFork_constraint \<lparr> branches = [], defaultCoerce = echoValue \<rparr>))"
    by (rule type_rule_no_names [where r = 11 and items = "[]"]) simp_all
  have C: "getEnforcerFor JSONSchemaConstRule ?sch Map.empty = Inr (Some ?c)"
    by (simp add: JSONSchemaConstRule_def JSONSchemaConstRule_getEnforcerFor_def Let_def)
  have B: "\<forall>b. ?sch \<noteq> Bool b" by simp
  from object_schema_process [OF T B] obtain e where
    E: "JSONSchemaEnforcerFactory_process (JSONSchemaEnforcerFactory h) ?sch Map.empty = Inr e"
    and V: "validate e = mergeValidateSteps
        (map validate (ruleEnforcers [?t, JSONSchemaConstRule] ?sch Map.empty)) ErrorLogValidationParser"
    by blast
  have R: "ruleEnforcers [?t, JSONSchemaConstRule] ?sch Map.empty
    = [KeywordEnforcerFork_constraint \<lparr> branches = [], defaultCoerce = echoValue \<rparr>, ?c]"
    using T C by (simp add: ruleEnforcers_def)
  have Q: "isEquivalentTo (Num (Fin 2)) (Num (Fin 1)) = False"
    by (simp add: isEquivalentTo.simps)
  have "map (\<lambda>x. (error_keyword x, error_priority x)) (errors (validate e (Num (Fin 2))))
                    = [(Some ''const'', Some (Fin 150))]"
    unfolding V R
    by (simp add: empty_fork_valid ErrorLogValidationParser_def Q
        KeywordValueEnforcer_constraint_def KeywordValueEnforcer_validate_def)
  with E show "case JSONSchemaEnforcerFactory_process (JSONSchemaEnforcerFactory h) ?sch Map.empty of
          Inr e \<Rightarrow> map (\<lambda>x. (error_keyword x, error_priority x)) (errors (validate e (Num (Fin 2))))
                    = [(Some ''const'', Some (Fin 150))]
        | Inl _ \<Rightarrow> False" by simp
qed

theorem unrecognized_types_accept_all_witness:
  "\<forall>h. (case JSONSchemaEnforcerFactory_process (JSONSchemaEnforcerFactory h)
            (Obj 10 [(''type'', Arr 11 [Str ''text'', Num (Fin 3)])]) Map.empty of
          Inr e \<Rightarrow> validate e (Str ''x'') = \<lparr> errors = [] \<rparr>
        | Inl _ \<Rightarrow> False)"
proof
  fix h
  let ?sch = "Obj 10 [(''type'', Arr 11 [Str ''text'', Num (Fin 3)])]"
  have 1: "get_property ?sch ''type'' = Arr 11 [Str ''text'', Num (Fin 3)]" by simp
  have 2: "list_all (\<lambda>x. \<not> is_string x \<or> (string_of x \<notin> set type_names \<and> string_of x \<notin> set object_prototype_keys))
     [Str ''text'', Num (Fin 3)]"
    by (simp add: type_names_def object_prototype_keys_def)
  have 3: "get_property ?sch ''const'' = Undefined" by simp
  from unrecognized_types_accept_all [OF 1 2 3, of h Map.empty]
  show "case JSONSchemaEnforcerFactory_process (JSONSchemaEnforcerFactory h) ?sch Map.empty of
          Inr e \<Rightarrow> validate e (Str ''x'') = \<lparr> errors = [] \<rparr>
        | Inl _ \<Rightarrow> False"
    by auto
qed

text \<open>
  The schema \<open>{type: ['boolean', 'string']}\<close>: a string is accepted, by the second
  branch of the fork; for the object \<open>{}\<close> both branches report one error of priority
  100, and the fork returns the error of the first.
\<close>

lemma type_fork_example:
  "\<exists>e. JSONSchemaEnforcerFactory_process (JSONSchemaEnforcerFactory h)
          (Obj 10 [(''type'', Arr 11 [Str ''boolean'', Str ''string''])]) Map.empty = Inr e
     \<and> validate e (Str ''x'') = \<lparr> errors = [] \<rparr>
     \<and> map (\<lambda>x. (error_keyword x, error_value x, error_priority x, error_target x))
          (errors (validate e (Obj 12 [])))
        = [(Some ''type'', Arr 11 [Str ''boolean'', Str ''string''], Some (Fin 100), Obj 12 [])]"
proof -
  let ?sch = "Obj 10 [(''type'', Arr 11 [Str ''boolean'', Str ''string''])]"
  let ?t = "JSONSchemaTypeRule_rule (JSONSchemaTypeRule h)"
  let ?b = "TypeKeywordEnforcer_constraint (TypeKeywordEnforcer ''type''
      (Arr 11 [Str ''boolean'', Str ''string''])
      (ValueTypeEnforcer_validate (BooleanEnforcer (Bool False) None))
      (BooleanEnforcer_coerce (BooleanEnforcer (Bool False) None)) None (Fin 100))"
  let ?s = "TypeKeywordEnforcer_constraint (TypeKeywordEnforcer ''type''
      (Arr 11 [Str ''boolean'', Str ''string''])
      (ValueTypeEnforcer_validate (StringEnforcer (Str []) None))
      (StringEnforcer_coerce h (StringEnforcer (Str []) None)) None (Fin 100))"
  let ?f = "KeywordEnforcerFork_constraint \<lparr> branches = [?b, ?s], defaultCoerce = echoValue \<rparr>"
  have M: "table_member (createJSONSchemaTypeRules h ''type'' None) ''boolean''
      = Own (TypeKeywordRule ''type''
         (required_of (ValueTypeEnforcer_validate (BooleanEnforcer (Bool False) None))
            (BooleanEnforcer_coerce (BooleanEnforcer (Bool False) None))))"
    "table_member (createJSONSchemaTypeRules h ''type'' None) ''string''
      = Own (TypeKeywordRule ''type''
         (required_of (ValueTypeEnforcer_validate (StringEnforcer (Str []) None))
            (StringEnforcer_coerce h (StringEnforcer (Str []) None))))"
    by (simp_all add: table_member_def createJSONSchemaTypeRules_def)
  have T: "getEnforcerFor ?t ?sch Map.empty = Inr (Some ?f)"
    by (simp add: JSONSchemaTypeRule_rule_def JSONSchemaTypeRule_def
        JSONSchemaTypeRule_getEnforcerFor_def M member_getEnforcerFor_def
        TypeKeywordRule_getEnforcerFor_def TypeKeywordRule_def required_of_def)
  have C: "getEnforcerFor JSONSchemaConstRule ?sch Map.empty = Inr None"
    by (simp add: JSONSchemaConstRule_def JSONSchemaConstRule_getEnforcerFor_def)
  from object_schema_process [OF T] obtain e where
    E: "JSONSchemaEnforcerFactory_process (JSONSchemaEnforcerFactory h) ?sch Map.empty = Inr e"
    and V: "validate e = mergeValidateSteps
        (map validate (ruleEnforcers [?t, JSONSchemaConstRule] ?sch Map.empty)) ErrorLogValidationParser"
    by auto
  have R: "ruleEnforcers [?t, JSONSchemaConstRule] ?sch Map.empty = [?f]"
    using T C by (simp add: ruleEnforcers_def)
  have B: "validate ?b v = (if typeof v = ''boolean'' then \<lparr> errors = [] \<rparr>
      else \<lparr> errors = [\<lparr> error_keyword = Some ''type'',
           error_value = Arr 11 [Str ''boolean'', Str ''string''], error_target = v,
           error_priority = Some (Fin 100),
           error_coerce = Some (typeCoerce (BooleanEnforcer_coerce (BooleanEnforcer (Bool False) None)) None) \<rparr>] \<rparr>)" for v
    by (simp add: TypeKeywordEnforcer_constraint_def TypeKeywordEnforcer_validate_def
        TypeKeywordEnforcer_def KeywordValueEnforcer_validate_def KeywordValueEnforcer.truncate_def
        ValueTypeEnforcer_validate_def BooleanEnforcer_def)
  have S: "validate ?s v = (if typeof v = ''string'' then \<lparr> errors = [] \<rparr>
      else \<lparr> errors = [\<lparr> error_keyword = Some ''type'',
           error_value = Arr 11 [Str ''boolean'', Str ''string''], error_target = v,
           error_priority = Some (Fin 100),
           error_coerce = Some (typeCoerce (StringEnforcer_coerce h (StringEnforcer (Str []) None)) None) \<rparr>] \<rparr>)" for v
    by (simp add: TypeKeywordEnforcer_constraint_def TypeKeywordEnforcer_validate_def
        TypeKeywordEnforcer_def KeywordValueEnforcer_validate_def KeywordValueEnforcer.truncate_def
        ValueTypeEnforcer_validate_def StringEnforcer_def)
  have F1: "validate ?f (Str ''x'') = \<lparr> errors = [] \<rparr>"
    unfolding KeywordEnforcerFork_constraint_def
    by (simp add: KeywordEnforcerFork_validate_def B S getHighestPriorityError_def priority_or_0_def num_gt_def)
  have F2: "map (\<lambda>x. (error_keyword x, error_value x, error_priority x, error_target x))
          (errors (validate ?f (Obj 12 [])))
        = [(Some ''type'', Arr 11 [Str ''boolean'', Str ''string''], Some (Fin 100), Obj 12 [])]"
    unfolding KeywordEnforcerFork_constraint_def
    by (simp add: KeywordEnforcerFork_validate_def B S getHighestPriorityError_def priority_or_0_def num_gt_def)
  from E V R F1 F2 show ?thesis
    by (auto simp: ErrorLogValidationParser_def)
qed

subsection \<open>Splitting a schema into options\<close>

lemma wrapEach_enumerate:
  "wrapEach key items n
   = (map (\<lambda>(i, v). Obj (n + i) [(key, v)]) (enumerate 0 items), n + length items)"
proof (induction items arbitrary: n)
  case Nil
  show ?case by simp
next
  case (Cons x xs)
  have "map (\<lambda>(i, v). Obj (n + i) [(key, v)]) (enumerate (Suc 0) xs)
      = map (\<lambda>(i, v). Obj (Suc n + i) [(key, v)]) (enumerate 0 xs)"
    by (simp add: enumerate_Suc_eq case_prod_beta)
  with Cons [of "Suc n"] show ?case by simp
qed

lemma subschemaLoop_find:
  "subschemaLoop source ks
   = (case find (\<lambda>k. isArray (get_property source k)) ks of
        Some k \<Rightarrow> Some (filter is_flag_or_object (elements (get_property source k)))
      | None \<Rightarrow> None)"
proof (induction ks)
  case Nil
  show ?case by simp
next
  case (Cons k ks)
  then show ?case by (cases "get_property source k") simp_all
qed

lemma not_array_cases:
  "\<not> isArray v \<Longrightarrow> (case v of Arr r xs \<Rightarrow> f r xs | _ \<Rightarrow> g) = g"
  by (cases v) simp_all

lemma JSONSchemaSplitter_defaults:
  "subschemaKeys (fst (JSONSchemaSplitter m)) = [''oneOf'', ''anyOf'']
   \<and> enumKey (fst (JSONSchemaSplitter m)) = ''enum''"
  by (simp add: JSONSchemaSplitter_def split: prod.splits)

lemma const_schema_process:
  "\<exists>e. JSONSchemaEnforcerFactory_process (JSONSchemaEnforcerFactory h) (Obj r [(''const'', v)]) ctx
     = Inr e"
proof -
  have T: "getEnforcerFor (JSONSchemaTypeRule_rule (JSONSchemaTypeRule h)) (Obj r [(''const'', v)]) ctx
      = Inr None"
    by (simp add: JSONSchemaTypeRule_rule_def JSONSchemaTypeRule_def
        JSONSchemaTypeRule_getEnforcerFor_def)
  from object_schema_process [OF T] show ?thesis by auto
qed

lemma const_label:
  "JSONSchemaLabeler_process h JSONSchemaLabeler (Obj r [(''const'', v)])
   = (case v of
        Arr r' items \<Rightarrow> if items = [] then ''[object Object]'' else join ''/'' (map (ToString h) items)
      | _ \<Rightarrow> ToString h v)"
  by (cases v)
     (simp_all add: JSONSchemaLabeler_process_def JSONSchemaLabeler_def KeyedSchemaLabeler_process_def
        JSON_SCHEMA_LABEL_PROPERTIES_def)


text \<open>
  Claim C8. For a splitter whose \<open>enumKey\<close> is \<open>enum\<close>, as the class sets it, and a
  schema object: when \<open>enum\<close> is an array, the result is one new object
  \<open>{const: v}\<close> for each of its values, in order; otherwise, when some subschema key
  holds an array, the result is the array of the first such key, filtered to booleans
  and to objects that are neither \<open>null\<close> nor arrays; otherwise, when \<open>type\<close> is
  an array, the result is one new object \<open>{type: t}\<close> for each string in it; otherwise
  the result is the schema alone. The default subschema keys are \<open>oneOf\<close>, then
  \<open>anyOf\<close>. The options of \<open>{enum: ['a', 1]}\<close> have the labels \<open>a\<close> and \<open>1\<close>.
\<close>

theorem splitter_precedence:
  assumes "enumKey sp = ''enum''" and "source = Obj ro ps"
  shows
    "(get_property source ''enum'' = Arr r vs \<longrightarrow>
        fst (JSONSchemaSplitter_process sp source n)
          = map (\<lambda>(i, v). Obj (n + i) [(''const'', v)]) (enumerate 0 vs))
     \<and> (\<not> isArray (get_property source ''enum'') \<longrightarrow>
          (find (\<lambda>k. isArray (get_property source k)) (subschemaKeys sp) = Some k \<longrightarrow>
             JSONSchemaSplitter_process sp source n
               = (filter (\<lambda>item. typeof item = ''boolean''
                                 \<or> (typeof item = ''object'' \<and> \<not> is_nullish item \<and> \<not> isArray item))
                    (elements (get_property source k)), n))
          \<and> (find (\<lambda>k. isArray (get_property source k)) (subschemaKeys sp) = None \<longrightarrow>
               (get_property source ''type'' = Arr r' ts \<longrightarrow>
                  fst (JSONSchemaSplitter_process sp source n)
                    = map (\<lambda>(i, t). Obj (n + i) [(''type'', t)]) (enumerate 0 (filter is_string ts)))
               \<and> (\<not> isArray (get_property source ''type'') \<longrightarrow>
                    JSONSchemaSplitter_process sp source n = ([source], n))))
     \<and> subschemaKeys (fst (JSONSchemaSplitter m)) = [''oneOf'', ''anyOf'']
     \<and> enumKey (fst (JSONSchemaSplitter m)) = ''enum''
     \<and> (case SchemaOptionsFactory_process (fst (JSONSchemaOptionsFactory h m))
                (Obj ro [(''enum'', Arr r [Str ''a'', Num (Fin 1)])]) n of
           Inr (options, n') \<Rightarrow> map label options = [''a'', ''1'']
         | Inl e \<Rightarrow> False)"
proof -
  have P: "JSONSchemaSplitter_process sp source n
      = (case get_property source ''enum'' of
           Arr r enumValues \<Rightarrow> wrapEach ''const'' enumValues n
         | _ \<Rightarrow> splitObject sp source n)"
    using assms(1) unfolding assms(2) JSONSchemaSplitter_process_def by simp
  have 1: "fst (JSONSchemaSplitter_process sp source n)
          = map (\<lambda>(i, v). Obj (n + i) [(''const'', v)]) (enumerate 0 vs)"
    if "get_property source ''enum'' = Arr r vs"
    using that by (simp add: P wrapEach_enumerate)
  have S: "JSONSchemaSplitter_process sp source n = splitObject sp source n"
    if "\<not> isArray (get_property source ''enum'')"
    using that by (simp add: P not_array_cases)
  have F: "is_flag_or_object = (\<lambda>item. typeof item = ''boolean''
                                 \<or> (typeof item = ''object'' \<and> \<not> is_nullish item \<and> \<not> isArray item))"
    by (rule ext) (simp add: is_flag_or_object_def)
  have 2: "splitObject sp source n
      = (filter (\<lambda>item. typeof item = ''boolean''
                                 \<or> (typeof item = ''object'' \<and> \<not> is_nullish item \<and> \<not> isArray item))
                    (elements (get_property source k)), n)"
    if "find (\<lambda>k. isArray (get_property source k)) (subschemaKeys sp) = Some k"
    using that by (simp add: splitObject_def subschemaLoop_find F)
  have 3: "fst (splitObject sp source n)
      = map (\<lambda>(i, t). Obj (n + i) [(''type'', t)]) (enumerate 0 (filter is_string ts))"
    if "find (\<lambda>k. isArray (get_property source k)) (subschemaKeys sp) = None"
      and "get_property source ''type'' = Arr r' ts"
    using that by (simp add: splitObject_def subschemaLoop_find wrapEach_enumerate)
  have 4: "splitObject sp source n = ([source], n)"
    if "find (\<lambda>k. isArray (get_property source k)) (subschemaKeys sp) = None"
      and "\<not> isArray (get_property source ''type'')"
    using that by (simp add: splitObject_def subschemaLoop_find not_array_cases)
  have 5: "case SchemaOptionsFactory_process (fst (JSONSchemaOptionsFactory h m))
                (Obj ro [(''enum'', Arr r [Str ''a'', Num (Fin 1)])]) n of
           Inr (options, n') \<Rightarrow> map label options = [''a'', ''1'']
         | Inl e \<Rightarrow> False"
  proof -
    obtain e1 where E1: "JSONSchemaEnforcerFactory_process (JSONSchemaEnforcerFactory h)
        (Obj n [(''const'', Str ''a'')]) Map.empty = Inr e1"
      using const_schema_process by blast
    obtain e2 where E2: "JSONSchemaEnforcerFactory_process (JSONSchemaEnforcerFactory h)
        (Obj (Suc n) [(''const'', Num (Fin 1))]) Map.empty = Inr e2"
      using const_schema_process by blast
    have N: "Number_toString h (Fin 1) = ''1''"
      by (simp add: is_integer_def show_nat.simps)
    obtain sp' n0 where SP: "JSONSchemaSplitter m = (sp', n0)" by (cases "JSONSchemaSplitter m")
    then have K: "enumKey sp' = ''enum''" using JSONSchemaSplitter_defaults [of m] by simp
    have "JSONSchemaSplitter_process sp' (Obj ro [(''enum'', Arr r [Str ''a'', Num (Fin 1)])]) n
        = ([Obj n [(''const'', Str ''a'')], Obj (Suc n) [(''const'', Num (Fin 1))]], Suc (Suc n))"
      using K by (simp add: JSONSchemaSplitter_process_def)
    then show ?thesis
      using E1 E2 N by (simp add: SchemaOptionsFactory_process_def JSONSchemaOptionsFactory_def SP const_label)
  qed
  from 1 2 3 4 5 S JSONSchemaSplitter_defaults [of m] show ?thesis by simp
qed


theorem splitter_precedence_witness:
  "fst (JSONSchemaSplitter_process (fst (JSONSchemaSplitter 13))
          (Obj 20 [(''enum'', Arr 21 [Str ''a'', Num (Fin 1)])]) 30)
     = [Obj 30 [(''const'', Str ''a'')], Obj 31 [(''const'', Num (Fin 1))]]
   \<and> JSONSchemaSplitter_process (fst (JSONSchemaSplitter 13))
          (Obj 20 [(''anyOf'', Arr 21 [Bool True, Obj 22 [(''type'', Str ''string'')],
                                       Num (Fin 5), Null, Arr 23 []])]) 30
     = ([Bool True, Obj 22 [(''type'', Str ''string'')]], 30)
   \<and> fst (JSONSchemaSplitter_process (fst (JSONSchemaSplitter 13))
          (Obj 20 [(''type'', Arr 21 [Str ''boolean'', Num (Fin 3), Str ''string''])]) 30)
     = [Obj 30 [(''type'', Str ''boolean'')], Obj 31 [(''type'', Str ''string'')]]
   \<and> JSONSchemaSplitter_process (fst (JSONSchemaSplitter 13))
          (Obj 20 [(''title'', Str ''x'')]) 30
     = ([Obj 20 [(''title'', Str ''x'')]], 30)"
proof -
  let ?sp = "fst (JSONSchemaSplitter 13)"
  let ?a = "Obj 20 [(''enum'', Arr 21 [Str ''a'', Num (Fin 1)])]"
  let ?b = "Obj 20 [(''anyOf'', Arr 21 [Bool True, Obj 22 [(''type'', Str ''string'')],
                                       Num (Fin 5), Null, Arr 23 []])]"
  let ?c = "Obj 20 [(''type'', Arr 21 [Str ''boolean'', Num (Fin 3), Str ''string''])]"
  let ?d = "Obj 20 [(''title'', Str ''x'')]"
  have K: "enumKey ?sp = ''enum''" and S: "subschemaKeys ?sp = [''oneOf'', ''anyOf'']"
    using JSONSchemaSplitter_defaults [of 13] by simp_all
  have E: "enumerate 0 [x, y] = [(0, x), (Suc 0, y)]" for x y :: jsval
    by simp
  fix h :: host
  from splitter_precedence [OF K, of ?a 20 "[(''enum'', Arr 21 [Str ''a'', Num (Fin 1)])]"
      21 "[Str ''a'', Num (Fin 1)]" 30 "''anyOf''" 0 "[]" 13 h]
  have 1: "fst (JSONSchemaSplitter_process ?sp ?a 30)
     = [Obj 30 [(''const'', Str ''a'')], Obj 31 [(''const'', Num (Fin 1))]]"
    by (simp add: E)
  from splitter_precedence [OF K, of ?b 20 _ 0 "[]" 30 "''anyOf''" 0 "[]" 13 h]
  have 2: "JSONSchemaSplitter_process ?sp ?b 30
     = ([Bool True, Obj 22 [(''type'', Str ''string'')]], 30)"
    by (simp add: S)
  from splitter_precedence [OF K, of ?c 20 _ 0 "[]" 30 "''anyOf''" 21
      "[Str ''boolean'', Num (Fin 3), Str ''string'']" 13 h]
  have 3: "fst (JSONSchemaSplitter_process ?sp ?c 30)
     = [Obj 30 [(''type'', Str ''boolean'')], Obj 31 [(''type'', Str ''string'')]]"
    by (simp add: S E)
  from splitter_precedence [OF K, of ?d 20 _ 0 "[]" 30 "''anyOf''" 0 "[]" 13 h]
  have 4: "JSONSchemaSplitter_process ?sp ?d 30 = ([?d], 30)"
    by (simp add: S)
  from 1 2 3 4 show ?thesis by simp
qed

subsection \<open>Arrays from objects\<close>















subsection \<open>Coercion and validation of the type enforcers\<close>













text \<open>
  A \<open>StringEnforcer\<close> without a default value coerces \<open>undefined\<close> to
  \<open>undefined\<close>, because \<open>JSON.stringify(undefined)\<close> returns \<open>undefined\<close> without
  throwing, and \<open>validate\<close> rejects the result.
\<close>

lemma string_coerce_undefined:
  "StringEnforcer_coerce h (StringEnforcer Undefined None) Undefined n = (Undefined, n)
   \<and> ValueTypeEnforcer_validate (StringEnforcer Undefined None)
        (fst (StringEnforcer_coerce h (StringEnforcer Undefined None) Undefined n)) = False"
  by (simp add: StringEnforcer_coerce_def StringEnforcer_def unwrap_def JSON_stringify_def
      ValueTypeEnforcer_validate_def)



end
